theory Spec2Isabelle
  imports Main
begin

section \<open>Results, errors and strings\<close>

text \<open>
  Go functions of the repository return a value together with an \<open>error\<close>; an index
  out of range is a run-time panic, which is neither. Errors keep the message of the
  \<open>fmt.Errorf\<close> that built them and the error they wrap.
\<close>

datatype error = Driver string | Msg string | Wrap string error

datatype 'a result = Ok 'a | Err error | Panic

text \<open>The rows of \<open>Query\<close>: \<open>[]map[string]string\<close>. A missing key reads as the empty string.\<close>

type_synonym row = "string \<rightharpoonup> string"

definition go_index :: "row \<Rightarrow> string \<Rightarrow> string" where
  "go_index m k = (case m k of None \<Rightarrow> [] | Some v \<Rightarrow> v)"

text \<open>\<open>exstrings.Join\<close> and \<open>strings.Join\<close>.\<close>

fun Join :: "string list \<Rightarrow> string \<Rightarrow> string" where
  "Join [] sep = []"
| "Join [x] sep = x"
| "Join (x # y # ys) sep = x @ sep @ Join (y # ys) sep"

text \<open>\<open>common.StringsBuilder\<close> concatenates its arguments.\<close>

definition StringsBuilder :: "string list \<Rightarrow> string" where
  "StringsBuilder ss = concat ss"

subsection \<open>Decimal numerals\<close>

definition is_digit :: "char \<Rightarrow> bool" where
  "is_digit c = (c \<in> set ''0123456789'')"

definition digit_val :: "char \<Rightarrow> nat" where
  "digit_val c = of_char c - (48::nat)"

definition digits_val :: "string \<Rightarrow> nat" where
  "digits_val s = foldl (\<lambda>acc c. 10 * acc + digit_val c) 0 s"

text \<open>
  \<open>strconv.ParseUint(s, 10, bitSize)\<close>: a non-empty run of decimal digits whose value
  fits \<open>bitSize\<close> bits.
\<close>

definition ParseUint :: "string \<Rightarrow> nat \<Rightarrow> error + nat" where
  "ParseUint s bitSize =
     (if s = [] \<or> \<not> list_all is_digit s then Inl (Msg ''strconv.ParseUint: invalid syntax'')
      else if digits_val s < 2 ^ bitSize then Inr (digits_val s)
      else Inl (Msg ''strconv.ParseUint: value out of range''))"

text \<open>
  \<open>strconv.ParseInt(s, 10, bitSize)\<close>: an optional sign, then a non-empty run of decimal
  digits, the value within the signed range. \<open>strconv.Atoi\<close> is \<open>ParseInt\<close> at the
  width of \<open>int\<close>, 64 bits.
\<close>

definition ParseInt :: "string \<Rightarrow> nat \<Rightarrow> error + int" where
  "ParseInt s bitSize =
     (let neg = (s \<noteq> [] \<and> hd s = CHR ''-'');
          body = (if s \<noteq> [] \<and> (hd s = CHR ''+'' \<or> hd s = CHR ''-'') then tl s else s)
      in if body = [] \<or> \<not> list_all is_digit body
         then Inl (Msg ''strconv.ParseInt: invalid syntax'')
         else if neg \<and> digits_val body \<le> 2 ^ (bitSize - 1) then Inr (- int (digits_val body))
         else if \<not> neg \<and> digits_val body < 2 ^ (bitSize - 1) then Inr (int (digits_val body))
         else Inl (Msg ''strconv.ParseInt: value out of range''))"

definition Atoi :: "string \<Rightarrow> error + int" where
  "Atoi s = ParseInt s 64"

text \<open>
  Modelled from the spec: \<open>common.StrconvUintBitSize\<close> and \<open>common.StrconvIntBitSize\<close>,
  which are not among the sources. The spec has them as the numeric parse of the value:
  \<open>strconv.ParseUint\<close> and \<open>strconv.ParseInt\<close> in base 10 at the bit size given.
\<close>

definition StrconvUintBitSize :: "string \<Rightarrow> nat \<Rightarrow> error + nat" where
  "StrconvUintBitSize s bitSize = ParseUint s bitSize"

definition StrconvIntBitSize :: "string \<Rightarrow> nat \<Rightarrow> error + int" where
  "StrconvIntBitSize s bitSize = ParseInt s bitSize"

text \<open>\<open>fmt.Sprintf("%v", n)\<close> for an integer: its decimal digits, a minus sign first if negative.\<close>

fun digits_of :: "nat \<Rightarrow> string" where
  "digits_of n =
     (if n < 10 then [''0123456789'' ! n]
      else digits_of (n div 10) @ [''0123456789'' ! (n mod 10)])"

declare digits_of.simps [simp del]

definition fmt_int :: "int \<Rightarrow> string" where
  "fmt_int i = (if i < 0 then CHR ''-'' # digits_of (nat (- i)) else digits_of (nat i))"

section \<open>Source reader: the Oracle side\<close>

text \<open>
  The statements the reader sends, each standing for the SQL text the code builds with
  its parameters spliced in. The database is whatever answers them through the driver:
  \<open>Query\<close> returns rows or an error, \<open>ExecContext\<close> an error or the database after
  the statement.
\<close>

datatype stmt =
    SelectCurrentSCN
  | CountChunks string
  | CreateTask string
  | CreateChunksByRowID string string string string
  | SelectChunks string
  | DropTask string

record 'db oracle_ops =
  Query :: "'db \<Rightarrow> stmt \<Rightarrow> error + row list"
  ExecContext :: "'db \<Rightarrow> stmt \<Rightarrow> error + 'db"

text \<open>
  \<open>GetOracleCurrentSnapshotSCN\<close>: \<open>res[0]\<close> is read with no check of \<open>len(res)\<close>.
  The number returned beside an error is dropped: every caller discards it.
\<close>

definition GetOracleCurrentSnapshotSCN :: "'db oracle_ops \<Rightarrow> 'db \<Rightarrow> nat result" where
  "GetOracleCurrentSnapshotSCN ora db =
     (case Query ora db SelectCurrentSCN of
        Inl e \<Rightarrow> Err e
      | Inr res \<Rightarrow>
          (case res of
             [] \<Rightarrow> Panic
           | r # _ \<Rightarrow>
               (case StrconvUintBitSize (go_index r ''CURRENT_SCN'') 64 of
                  Inr scn \<Rightarrow> Ok scn
                | Inl e \<Rightarrow>
                    Err (Wrap ''get oracle current snapshot scn utils.StrconvUintBitSize failed'' e))))"

definition CloseOracleChunkTask :: "'db oracle_ops \<Rightarrow> 'db \<Rightarrow> string \<Rightarrow> error + 'db" where
  "CloseOracleChunkTask ora db taskName =
     (case ExecContext ora db (DropTask taskName) of
        Inr db' \<Rightarrow> Inr db'
      | Inl e \<Rightarrow> Inl (Wrap ''oracle DBMS_PARALLEL_EXECUTE drop task failed'' e))"

text \<open>
  \<open>StartOracleChunkCreateTask\<close>: the count is of the rows of
  \<open>user_parallel_execute_chunks\<close> under the task name; \<open>res[0]\<close> again unchecked.
  On an error the database reached so far stays as it is: the pair's second component.
\<close>

definition StartOracleChunkCreateTask ::
  "'db oracle_ops \<Rightarrow> 'db \<Rightarrow> string \<Rightarrow> unit result \<times> 'db" where
  "StartOracleChunkCreateTask ora db taskName =
     (case Query ora db (CountChunks taskName) of
        Inl e \<Rightarrow> (Err e, db)
      | Inr res \<Rightarrow>
          (case res of
             [] \<Rightarrow> (Panic, db)
           | r # _ \<Rightarrow>
               (case (if go_index r ''COUNT'' \<noteq> ''0''
                      then CloseOracleChunkTask ora db taskName else Inr db) of
                  Inl e \<Rightarrow> (Err e, db)
                | Inr db1 \<Rightarrow>
                    (case ExecContext ora db1 (CreateTask taskName) of
                       Inr db2 \<Rightarrow> (Ok (), db2)
                     | Inl e \<Rightarrow>
                         (Err (Wrap ''oracle DBMS_PARALLEL_EXECUTE create task failed'' e), db1)))))"

definition StartOracleCreateChunkByRowID ::
  "'db oracle_ops \<Rightarrow> 'db \<Rightarrow> string \<Rightarrow> string \<Rightarrow> string \<Rightarrow> string \<Rightarrow> (error + unit) \<times> 'db" where
  "StartOracleCreateChunkByRowID ora db taskName schemaName tableName chunkSize =
     (case ExecContext ora db (CreateChunksByRowID taskName schemaName tableName chunkSize) of
        Inr db' \<Rightarrow> (Inr (), db')
      | Inl e \<Rightarrow>
          (Inl (Wrap ''oracle DBMS_PARALLEL_EXECUTE create_chunks_by_rowid task failed'' e), db))"

definition GetOracleTableChunksByRowID :: "'db oracle_ops \<Rightarrow> 'db \<Rightarrow> string \<Rightarrow> error + row list" where
  "GetOracleTableChunksByRowID ora db taskName = Query ora db (SelectChunks taskName)"

subsection \<open>A database to run the reader against\<close>

text \<open>
  The part of Oracle the reader talks to: the current SCN, the tasks of
  \<open>DBMS_PARALLEL_EXECUTE\<close> with the row-id ranges of their chunks, and the ranges
  \<open>CREATE_CHUNKS_BY_ROWID\<close> would cut each table into. \<open>CREATE_TASK\<close> refuses a name
  in use, \<open>DROP_TASK\<close> and \<open>CREATE_CHUNKS_BY_ROWID\<close> a name that is not.
\<close>

record pe_db =
  current_scn :: nat
  pe_tasks :: "(string \<times> (string \<times> string) list) list"
  table_ranges :: "((string \<times> string) \<times> (string \<times> string) list) list"

definition task_chunks :: "pe_db \<Rightarrow> string \<Rightarrow> (string \<times> string) list" where
  "task_chunks db t = (case map_of (pe_tasks db) t of None \<Rightarrow> [] | Some cs \<Rightarrow> cs)"

definition rowid_between :: "string \<Rightarrow> string \<Rightarrow> string" where
  "rowid_between a b = ''ROWID BETWEEN '' @ [CHR 0x27] @ a @ [CHR 0x27] @ '' AND ''
                         @ [CHR 0x27] @ b @ [CHR 0x27]"

definition chunk_cmd :: "string \<times> string \<Rightarrow> row" where
  "chunk_cmd c = [''CMD'' \<mapsto> rowid_between (fst c) (snd c)]"

fun pe_query :: "pe_db \<Rightarrow> stmt \<Rightarrow> error + row list" where
  "pe_query db SelectCurrentSCN = Inr [[''CURRENT_SCN'' \<mapsto> digits_of (current_scn db)]]"
| "pe_query db (CountChunks t) = Inr [[''COUNT'' \<mapsto> digits_of (length (task_chunks db t))]]"
| "pe_query db (SelectChunks t) = Inr (map chunk_cmd (task_chunks db t))"
| "pe_query db _ = Inl (Driver ''ORA-00900: invalid SQL statement'')"

fun pe_exec :: "pe_db \<Rightarrow> stmt \<Rightarrow> error + pe_db" where
  "pe_exec db (CreateTask t) =
     (if map_of (pe_tasks db) t \<noteq> None then Inl (Driver ''ORA-29497: duplicate task name'')
      else Inr (db\<lparr>pe_tasks := (t, []) # pe_tasks db\<rparr>))"
| "pe_exec db (DropTask t) =
     (if map_of (pe_tasks db) t = None then Inl (Driver ''ORA-29498: task not found'')
      else Inr (db\<lparr>pe_tasks := filter (\<lambda>p. fst p \<noteq> t) (pe_tasks db)\<rparr>))"
| "pe_exec db (CreateChunksByRowID t owner tab sz) =
     (if map_of (pe_tasks db) t = None then Inl (Driver ''ORA-29498: task not found'')
      else Inr (db\<lparr>pe_tasks := (t, case map_of (table_ranges db) (owner, tab) of
                                        None \<Rightarrow> [] | Some cs \<Rightarrow> cs)
                                  # filter (\<lambda>p. fst p \<noteq> t) (pe_tasks db)\<rparr>))"
| "pe_exec db _ = Inl (Driver ''ORA-00900: invalid SQL statement'')"

definition pe_ops :: "pe_db oracle_ops" where
  "pe_ops = \<lparr>Query = pe_query, ExecContext = pe_exec\<rparr>"

text \<open>A driver that answers every query with no row at all.\<close>

definition norow_ops :: "pe_db oracle_ops" where
  "norow_ops = \<lparr>Query = (\<lambda>db s. Inr []), ExecContext = pe_exec\<rparr>"

definition db0 :: pe_db where
  "db0 = \<lparr>current_scn = 42, pe_tasks = [], table_ranges = []\<rparr>"

section \<open>Value codec and row batching\<close>

text \<open>
  Modelled from the spec: \<open>common.SpecialLettersUsingMySQL\<close>, which is not among the
  sources. The spec has it backslash-escape NUL, newline, carriage return, backslash,
  single quote, double quote and Ctrl-Z, and leave every other character as it is.
\<close>

definition escape_char :: "char \<Rightarrow> string" where
  "escape_char c =
     (if c = CHR 0x00 then [CHR 0x5C, CHR ''0'']
      else if c = CHR 0x0A then [CHR 0x5C, CHR ''n'']
      else if c = CHR 0x0D then [CHR 0x5C, CHR ''r'']
      else if c = CHR 0x5C then [CHR 0x5C, CHR 0x5C]
      else if c = CHR 0x27 then [CHR 0x5C, CHR 0x27]
      else if c = CHR 0x22 then [CHR 0x5C, CHR 0x22]
      else if c = CHR 0x1A then [CHR 0x5C, CHR ''Z'']
      else [c])"

definition SpecialLettersUsingMySQL :: "string \<Rightarrow> string" where
  "SpecialLettersUsingMySQL bs = concat (map escape_char bs)"

text \<open>
  What the codec takes from outside the repository: the parse and \<open>%v\<close> print of a
  float at a bit size (\<open>common.StrconvFloatBitSize\<close> then \<open>fmt.Sprintf\<close>), and
  \<open>decimal.NewFromString\<close> followed by \<open>IsInteger\<close>.
\<close>

record codec_env =
  FloatFormat :: "string \<Rightarrow> nat \<Rightarrow> error + string"
  DecimalIsInteger :: "string \<Rightarrow> error + bool"

text \<open>
  One column value of a scanned row. \<open>raw\<close> is \<open>None\<close> for a nil byte slice. An error
  in the \<open>godror.Number\<close> branch returns the row's values so far where every other
  branch returns the batches: \<open>FailRow\<close> and \<open>FailBatch\<close>. \<open>columnTypes[i]\<close> is read only
  for a value that is neither nil nor empty.
  Modelled from the spec: \<open>common.StrconvRune\<close>, a numeric parse (of 32 bits) printed back.
\<close>

datatype encoded = Lit string | FailBatch error | FailRow error | EncPanic

definition int_lit :: "string \<Rightarrow> nat \<Rightarrow> encoded" where
  "int_lit s bitSize =
     (case StrconvIntBitSize s bitSize of
        Inr r \<Rightarrow> Lit (fmt_int r) | Inl e \<Rightarrow> FailBatch e)"

definition encode_value :: "codec_env \<Rightarrow> string list \<Rightarrow> nat \<Rightarrow> string option \<Rightarrow> encoded" where
  "encode_value env columnTypes i raw =
     (case raw of
        None \<Rightarrow> Lit ''NULL''
      | Some s \<Rightarrow>
          if s = [] then Lit ''NULL''
          else if length columnTypes \<le> i then EncPanic
          else if columnTypes ! i = ''int64'' then int_lit s 64
          else if columnTypes ! i = ''uint64'' then
            (case StrconvUintBitSize s 64 of
               Inr r \<Rightarrow> Lit (digits_of r) | Inl e \<Rightarrow> FailBatch e)
          else if columnTypes ! i = ''float32'' then
            (case FloatFormat env s 32 of Inr r \<Rightarrow> Lit r | Inl e \<Rightarrow> FailBatch e)
          else if columnTypes ! i = ''float64'' then
            (case FloatFormat env s 64 of Inr r \<Rightarrow> Lit r | Inl e \<Rightarrow> FailBatch e)
          else if columnTypes ! i = ''rune'' then int_lit s 32
          else if columnTypes ! i = ''godror.Number'' then
            (case DecimalIsInteger env s of
               Inl e \<Rightarrow> FailRow e
             | Inr isInt \<Rightarrow>
                 if isInt then
                   (case StrconvIntBitSize s 64 of
                      Inr si \<Rightarrow> Lit (fmt_int si) | Inl e \<Rightarrow> FailRow e)
                 else
                   (case FloatFormat env s 64 of Inr rf \<Rightarrow> Lit rf | Inl e \<Rightarrow> FailRow e))
          else Lit ([CHR 0x27] @ SpecialLettersUsingMySQL s @ [CHR 0x27]))"

text \<open>The loop over the columns of one row, appending to \<open>rowsResult\<close>.\<close>

datatype row_outcome =
  RowOk "string list" | RowFailBatch error | RowFailRow "string list" error | RowPanic

fun encode_columns ::
  "codec_env \<Rightarrow> string list \<Rightarrow> nat \<Rightarrow> string option list \<Rightarrow> string list \<Rightarrow> row_outcome" where
  "encode_columns env columnTypes i [] rowsResult = RowOk rowsResult"
| "encode_columns env columnTypes i (raw # raws) rowsResult =
     (case encode_value env columnTypes i raw of
        Lit v \<Rightarrow> encode_columns env columnTypes (Suc i) raws (rowsResult @ [v])
      | FailBatch e \<Rightarrow> RowFailBatch e
      | FailRow e \<Rightarrow> RowFailRow rowsResult e
      | EncPanic \<Rightarrow> RowPanic)"

text \<open>
  What the driver hands back for the query: the column names, the column types, then
  for each \<open>rows.Next()\<close> the values \<open>rows.Scan\<close> reads or its error, and \<open>rows.Err()\<close>
  at the end. \<open>database/sql\<close> refuses a \<open>Scan\<close> into a number of destinations that is
  not the number of values of the row.
\<close>

record col_type =
  ScanType :: string
  DatabaseTypeName :: string

record rows_handle =
  Columns :: "error + string list"
  ColumnTypes :: "error + col_type list"
  Scans :: "(error + string option list) list"
  RowsErr :: "error option"

definition Scan :: "nat \<Rightarrow> error + string option list \<Rightarrow> error + string option list" where
  "Scan columns r =
     (case r of
        Inl e \<Rightarrow> Inl e
      | Inr vals \<Rightarrow>
          if length vals = columns then Inr vals
          else Inl (Msg ''sql: expected destination arguments in Scan''))"

text \<open>
  The loop over the rows: the state is \<open>rowsTMP\<close> and \<open>batchResults\<close>; the loop ends by
  falling through (\<open>LoopDone\<close>), by a \<open>return\<close> with an error and the second value
  returned beside it, or by a panic.
\<close>

datatype loop_outcome =
  LoopDone "string list" "string list" | LoopReturn "string list" error | LoopPanic

fun scan_rows ::
  "codec_env \<Rightarrow> string list \<Rightarrow> nat \<Rightarrow> int \<Rightarrow> (error + string option list) list \<Rightarrow>
   string list \<Rightarrow> string list \<Rightarrow> loop_outcome" where
  "scan_rows env columnTypes columns insertBatchSize [] rowsTMP batchResults =
     LoopDone rowsTMP batchResults"
| "scan_rows env columnTypes columns insertBatchSize (r # rs) rowsTMP batchResults =
     (case Scan columns r of
        Inl e \<Rightarrow> LoopReturn batchResults e
      | Inr rawResult \<Rightarrow>
          (case encode_columns env columnTypes 0 rawResult [] of
             RowFailBatch e \<Rightarrow> LoopReturn batchResults e
           | RowFailRow rowsResult e \<Rightarrow> LoopReturn rowsResult e
           | RowPanic \<Rightarrow> LoopPanic
           | RowOk rowsResult \<Rightarrow>
               (let rowsTMP' = rowsTMP @ [StringsBuilder [''('', Join rowsResult '','', '')'']]
                in if int (length rowsTMP') = insertBatchSize
                   then scan_rows env columnTypes columns insertBatchSize rs []
                          (batchResults @ [Join rowsTMP' '',''])
                   else scan_rows env columnTypes columns insertBatchSize rs rowsTMP'
                          batchResults)))"

datatype rows_data = RowsData "string list" "string list" "error option" | RowsPanic

definition GetOracleTableRowsData ::
  "codec_env \<Rightarrow> error + rows_handle \<Rightarrow> int \<Rightarrow> rows_data" where
  "GetOracleTableRowsData env QueryContext insertBatchSize =
     (case QueryContext of
        Inl e \<Rightarrow> RowsData [] [] (Some e)
      | Inr rows \<Rightarrow>
          (case Columns rows of
             Inl e \<Rightarrow> RowsData [] [] (Some e)
           | Inr tmpCols \<Rightarrow>
               (let cols = map (\<lambda>col. StringsBuilder [''`'', col, ''`'']) tmpCols
                in case ColumnTypes rows of
                     Inl e \<Rightarrow> RowsData cols [] (Some e)
                   | Inr colTypes \<Rightarrow>
                       (case scan_rows env (map ScanType colTypes) (length cols)
                               insertBatchSize (Scans rows) [] [] of
                          LoopPanic \<Rightarrow> RowsPanic
                        | LoopReturn second e \<Rightarrow> RowsData cols second (Some e)
                        | LoopDone rowsTMP batchResults \<Rightarrow>
                            (case RowsErr rows of
                               Some e \<Rightarrow> RowsData cols batchResults (Some e)
                             | None \<Rightarrow>
                                 RowsData cols
                                   (if length rowsTMP > 0
                                    then batchResults @ [Join rowsTMP '','']
                                    else batchResults)
                                   None)))))"

subsection \<open>The tuple of a row, and the partition the row loop computes\<close>

text \<open>
  The tuple string one scanned row contributes to \<open>rowsTMP\<close>, when its \<open>Scan\<close> and
  every column of it go through; \<open>split_batches\<close> is the row loop on tuples alone,
  keeping each flushed batch as the list of its tuples.
\<close>

definition row_tuple ::
  "codec_env \<Rightarrow> string list \<Rightarrow> nat \<Rightarrow> error + string option list \<Rightarrow> string option" where
  "row_tuple env columnTypes columns r =
     (case Scan columns r of
        Inl e \<Rightarrow> None
      | Inr vals \<Rightarrow>
          (case encode_columns env columnTypes 0 vals [] of
             RowOk res \<Rightarrow> Some (StringsBuilder [''('', Join res '','', '')''])
           | _ \<Rightarrow> None))"

fun split_batches :: "int \<Rightarrow> string list \<Rightarrow> string list \<Rightarrow> string list list \<times> string list" where
  "split_batches n [] tmp = ([], tmp)"
| "split_batches n (t # ts) tmp =
     (if int (length (tmp @ [t])) = n
      then ((tmp @ [t]) # fst (split_batches n ts []), snd (split_batches n ts []))
      else split_batches n ts (tmp @ [t]))"

text \<open>A codec environment and a three-row result set to run the reader on.\<close>

definition env0 :: codec_env where
  "env0 = \<lparr>FloatFormat = (\<lambda>s b. if list_all is_digit s then Inr s else Inl (Msg ''strconv.ParseFloat: invalid syntax'')),
           DecimalIsInteger = (\<lambda>s. if list_all is_digit s then Inr True else Inl (Msg ''decimal: invalid''))\<rparr>"

definition rows3 :: rows_handle where
  "rows3 = \<lparr>Columns = Inr [''ID'', ''NAME''],
            ColumnTypes = Inr [\<lparr>ScanType = ''int64'', DatabaseTypeName = ''NUMBER''\<rparr>,
                               \<lparr>ScanType = ''string'', DatabaseTypeName = ''VARCHAR2''\<rparr>],
            Scans = [Inr [Some ''1'', Some ''a''], Inr [Some ''2'', None], Inr [Some ''3'', Some []]],
            RowsErr = None\<rparr>"

section \<open>Planning: the SELECT projection\<close>

text \<open>\<open>strings.ToUpper\<close> on ASCII letters, and \<open>strings.Contains\<close>.\<close>

definition to_upper :: "char \<Rightarrow> char" where
  "to_upper c =
     (case map_of (zip ''abcdefghijklmnopqrstuvwxyz'' ''ABCDEFGHIJKLMNOPQRSTUVWXYZ'') c of
        None \<Rightarrow> c | Some u \<Rightarrow> u)"

definition ToUpper :: "string \<Rightarrow> string" where
  "ToUpper s = map to_upper s"

fun has_prefix :: "string \<Rightarrow> string \<Rightarrow> bool" where
  "has_prefix s [] = True"
| "has_prefix [] (p # ps) = False"
| "has_prefix (c # cs) (p # ps) = (c = p \<and> has_prefix cs ps)"

fun Contains :: "string \<Rightarrow> string \<Rightarrow> bool" where
  "Contains [] substr = (substr = [])"
| "Contains (c # cs) substr = (has_prefix (c # cs) substr \<or> Contains cs substr)"

text \<open>
  The \<open>switch\<close> of \<open>adjustTableSelectColumn\<close> for one row of the column dictionary:
  the cases compare the upper-cased \<open>DATA_TYPE\<close>, the default branch searches
  \<open>DATA_TYPE\<close> as it is. The comparisons of the scale are the source's.
\<close>

definition select_column :: "row \<Rightarrow> error + string" where
  "select_column rowCol =
     (let dt = ToUpper (go_index rowCol ''DATA_TYPE'');
          name = go_index rowCol ''COLUMN_NAME''
      in if dt = ''NUMBER'' then Inr name
         else if dt \<in> set [''DECIMAL'', ''DEC'', ''DOUBLE PRECISION'', ''FLOAT'', ''INTEGER'',
                            ''INT'', ''REAL'', ''NUMERIC'', ''BINARY_FLOAT'', ''BINARY_DOUBLE'',
                            ''SMALLINT''] then Inr name
         else if dt \<in> set [''BFILE'', ''CHARACTER'', ''LONG'', ''NCHAR VARYING'', ''ROWID'',
                            ''UROWID'', ''VARCHAR'', ''CHAR'', ''NCHAR'', ''NVARCHAR2'', ''NCLOB'',
                            ''CLOB''] then Inr name
         else if dt = ''XMLTYPE'' then
           Inr ('' XMLSERIALIZE(CONTENT '' @ name @ '' AS CLOB) AS '' @ name)
         else if dt \<in> set [''BLOB'', ''LONG RAW'', ''RAW''] then Inr name
         else if dt = ''DATE'' then
           Inr (StringsBuilder [''TO_CHAR('', name, '','yyyy-MM-dd HH24:mi:ss') AS '', name])
         else if Contains (go_index rowCol ''DATA_TYPE'') ''INTERVAL'' then
           Inr (StringsBuilder [''TO_CHAR('', name, '') AS '', name])
         else if Contains (go_index rowCol ''DATA_TYPE'') ''TIMESTAMP'' then
           (case Atoi (go_index rowCol ''DATA_SCALE'') of
              Inl e \<Rightarrow>
                Inl (Wrap ''aujust oracle timestamp datatype scale strconv.Atoi failed'' e)
            | Inr dataScale \<Rightarrow>
                if dataScale = 0 then
                  Inr (StringsBuilder [''TO_CHAR('', name, '','yyyy-mm-dd hh24:mi:ss') AS '', name])
                else if dataScale < 0 \<and> dataScale \<le> 6 then
                  Inr (StringsBuilder [''TO_CHAR('', name, '','yyyy-mm-dd hh24:mi:ss.ff'',
                                       go_index rowCol ''DATA_SCALE'', ''') AS '', name])
                else
                  Inr (StringsBuilder [''TO_CHAR('', name, '','yyyy-mm-dd hh24:mi:ss.ff6') AS '',
                                       name]))
         else Inr name)"

fun select_columns :: "row list \<Rightarrow> string list \<Rightarrow> error + string list" where
  "select_columns [] columnNames = Inr columnNames"
| "select_columns (rowCol # rest) columnNames =
     (case select_column rowCol of
        Inl e \<Rightarrow> Inl e
      | Inr c \<Rightarrow> select_columns rest (columnNames @ [c]))"

text \<open>
  \<open>adjustTableSelectColumn\<close>, given what \<open>GetOracleSchemaTableColumn\<close> (not among the
  sources) returned for the table.
\<close>

definition adjustTableSelectColumn :: "error + row list \<Rightarrow> error + string" where
  "adjustTableSelectColumn columnsINFO =
     (case columnsINFO of
        Inl e \<Rightarrow> Inl e
      | Inr rows \<Rightarrow>
          (case select_columns rows [] of
             Inl e \<Rightarrow> Inl e
           | Inr columnNames \<Rightarrow> Inr (Join columnNames '','')))"

text \<open>The column \<open>ts TIMESTAMP(3)\<close> as the column dictionary describes it.\<close>

definition ts3 :: row where
  "ts3 = [''COLUMN_NAME'' \<mapsto> ''ts'', ''DATA_TYPE'' \<mapsto> ''TIMESTAMP(3)'', ''DATA_SCALE'' \<mapsto> ''3'']"

section \<open>Metadata store, sink and environment\<close>

text \<open>
  A row of \<open>wait_sync_meta\<close> or \<open>full_sync_meta\<close> gives every column a value; a Go
  struct literal, a query condition or an update map is the list of the fields it
  names. A column no literal names holds Go's zero value.
\<close>

datatype column =
    DBTypeS | DBTypeT | SchemaNameS | TableNameS | SchemaNameT | TableNameT | TaskMode
  | TaskStatus | GlobalScnS | ChunkTotalNums | ChunkSuccessNums | ChunkFailedNums
  | IsPartition | ColumnDetailS | ChunkDetailS | InfoDetail | ErrorDetail

datatype val = S string | N int

type_synonym fields = "(column \<times> val) list"
type_synonym meta_row = "column \<Rightarrow> val"

fun str_of :: "val \<Rightarrow> string" where
  "str_of (S s) = s"
| "str_of (N n) = fmt_int n"

fun int_of :: "val \<Rightarrow> int" where
  "int_of (N n) = n"
| "int_of (S s) = 0"

definition zero_row :: meta_row where
  "zero_row c =
     (if c = GlobalScnS \<or> c = ChunkTotalNums \<or> c = ChunkSuccessNums \<or> c = ChunkFailedNums
      then N 0 else S [])"

definition set_fields :: "fields \<Rightarrow> meta_row \<Rightarrow> meta_row" where
  "set_fields fs r = fold (\<lambda>f r. r(fst f := snd f)) fs r"

definition mk_row :: "fields \<Rightarrow> meta_row" where
  "mk_row fs = set_fields fs zero_row"

definition matches :: "fields \<Rightarrow> meta_row \<Rightarrow> bool" where
  "matches fs r = list_all (\<lambda>f. r (fst f) = snd f) fs"

text \<open>
  The primary keys of the two tables, as the spec lists them, and the split of a struct
  literal into the key it addresses and the fields it writes.
\<close>

definition wait_key :: "column list" where
  "wait_key = [DBTypeS, DBTypeT, SchemaNameS, TableNameS, TaskMode]"

definition full_key :: "column list" where
  "full_key = [DBTypeS, DBTypeT, SchemaNameS, TableNameS, TaskMode, ChunkDetailS]"

definition key_of :: "column list \<Rightarrow> fields \<Rightarrow> fields" where
  "key_of key fs = filter (\<lambda>f. fst f \<in> set key) fs"

definition patch_of :: "column list \<Rightarrow> fields \<Rightarrow> fields" where
  "patch_of key fs = filter (\<lambda>f. fst f \<notin> set key) fs"

definition same_key :: "column list \<Rightarrow> meta_row \<Rightarrow> meta_row \<Rightarrow> bool" where
  "same_key key r r' = list_all (\<lambda>c. r c = r' c) key"

record Config =
  CfgDBTypeS :: string
  CfgDBTypeT :: string
  OracleSchemaName :: string
  MySQLSchemaName :: string
  CfgTaskMode :: string
  EnableCheckpoint :: bool
  InsertBatchSize :: int
  CSVRows :: int

text \<open>
  Everything the run can change: the two metadata tables and the number of calls made
  to the metadata store so far, the destination tables truncated, the chunks whose
  extract-translate-apply was started, and the Oracle database.
\<close>

record 'db world =
  wait_sync_meta :: "meta_row list"
  full_sync_meta :: "meta_row list"
  meta_calls :: nat
  truncated :: "(string \<times> string) list"
  chunks_run :: "meta_row list"
  oracle_db :: 'db

text \<open>
  Everything the run takes from outside the sources given: the Oracle driver; which
  call to the metadata store fails (by its number) and which truncate; the results of
  the reader and planner functions that are not among the sources; the constants of
  package \<open>common\<close>; the extract, translate and apply stages of a chunk and the
  \<open>String()\<close> of a chunk row.
\<close>

record 'db env =
  OracleDB :: "'db oracle_ops"
  meta_fault :: "nat \<Rightarrow> error option"
  truncate_fault :: "string \<Rightarrow> string \<Rightarrow> error option"
  GetOracleDBVersion :: "error + string"
  VersionOrdinal :: "string \<Rightarrow> nat"
  RequireOracleDBVersion :: string
  OracleTableColumnCollationDBVersion :: string
  filterCFGTable :: "error + string list"
  TaskTableDefaultSourceGlobalSCN :: int
  TaskTableDefaultSplitChunkNums :: int
  DetailTableNameRule :: "error + (string \<times> string) list"
  GetOracleSchemaPartitionTable :: "error + string list"
  GetOracleTableRowsByStatistics :: "string \<Rightarrow> string \<Rightarrow> error + int"
  GetOracleSchemaTableColumn :: "string \<Rightarrow> string \<Rightarrow> bool \<Rightarrow> error + row list"
  IExtractor :: "meta_row \<Rightarrow> error + string list \<times> string list"
  ITranslator :: "meta_row \<Rightarrow> string list \<Rightarrow> string list \<Rightarrow> error option"
  IApplier :: "meta_row \<Rightarrow> string list \<Rightarrow> string list \<Rightarrow> error option"
  String :: "meta_row \<Rightarrow> string"

text \<open>The status strings of package \<open>common\<close>, which the spec spells out.\<close>

definition TaskStatusWaiting :: string where "TaskStatusWaiting = ''WAITING''"
definition TaskStatusRunning :: string where "TaskStatusRunning = ''RUNNING''"
definition TaskStatusSuccess :: string where "TaskStatusSuccess = ''SUCCESS''"
definition TaskStatusFailed :: string where "TaskStatusFailed = ''FAILED''"

text \<open>\<open>err.Error()\<close>.\<close>

fun Error :: "error \<Rightarrow> string" where
  "Error (Driver s) = s"
| "Error (Msg s) = s"
| "Error (Wrap s e) = s @ '': '' @ Error e"

subsection \<open>Sequencing\<close>

text \<open>
  A call returns its result and the world it leaves. \<open>andThen\<close> continues after a
  success and returns at once on an error or a panic, as \<open>if err != nil { return err }\<close>
  does. \<open>for_each\<close> is a \<open>for\<close> loop whose body returns on error.
\<close>

definition andThen ::
  "'a result \<times> 'w \<Rightarrow> ('a \<Rightarrow> 'w \<Rightarrow> 'b result \<times> 'w) \<Rightarrow> 'b result \<times> 'w" where
  "andThen m f =
     (case m of (Ok a, w) \<Rightarrow> f a w | (Err e, w) \<Rightarrow> (Err e, w) | (Panic, w) \<Rightarrow> (Panic, w))"

fun for_each :: "('a \<Rightarrow> 'w \<Rightarrow> unit result \<times> 'w) \<Rightarrow> 'a list \<Rightarrow> 'w \<Rightarrow> unit result \<times> 'w" where
  "for_each body [] w = (Ok (), w)"
| "for_each body (x # xs) w =
     (case body x w of
        (Ok u, w') \<Rightarrow> for_each body xs w'
      | (Err e, w') \<Rightarrow> (Err e, w')
      | (Panic, w') \<Rightarrow> (Panic, w'))"

text \<open>
  \<open>errgroup.Group\<close> as the code builds it, \<open>&errgroup.Group{}\<close> with a limit: there is
  no context to cancel, so every task handed to \<open>Go\<close> runs, and \<open>Wait\<close> returns the
  first error. The tasks are run here one after the other in the order of the loop
  that starts them (the schedule of a limit of 1); a panic ends the program.
\<close>

fun group_run ::
  "('a \<Rightarrow> 'w \<Rightarrow> unit result \<times> 'w) \<Rightarrow> 'a list \<Rightarrow> error option \<Rightarrow> 'w \<Rightarrow> unit result \<times> 'w" where
  "group_run task [] first w = (case first of None \<Rightarrow> (Ok (), w) | Some e \<Rightarrow> (Err e, w))"
| "group_run task (x # xs) first w =
     (case task x w of
        (Ok u, w') \<Rightarrow> group_run task xs first w'
      | (Err e, w') \<Rightarrow> group_run task xs (case first of None \<Rightarrow> Some e | Some e0 \<Rightarrow> Some e0) w'
      | (Panic, w') \<Rightarrow> (Panic, w'))"

subsection \<open>The metadata store\<close>

text \<open>
  Modelled from the spec: package \<open>meta\<close>, which is not among the sources. Every
  operation is one call to the store, which either fails as a whole, changing nothing,
  or does what the spec and its name say: the compound operations are one transaction.
  A condition selects the rows that agree with it on the fields it names. An insert
  under a primary key already present fails.
\<close>

definition tick :: "'db world \<Rightarrow> 'db world" where
  "tick w = w\<lparr>meta_calls := Suc (meta_calls w)\<rparr>"

definition meta_call ::
  "'db env \<Rightarrow> 'db world \<Rightarrow> 'a \<Rightarrow> ('db world \<Rightarrow> 'db world) \<Rightarrow> 'a result \<times> 'db world" where
  "meta_call env w a upd =
     (case meta_fault env (meta_calls w) of
        Some e \<Rightarrow> (Err e, tick w)
      | None \<Rightarrow> (Ok a, tick (upd w)))"

definition duplicate_key :: error where
  "duplicate_key = Driver ''Error 1062: Duplicate entry''"

definition DetailWaitSyncMetaSuccessTables ::
  "'db env \<Rightarrow> 'db world \<Rightarrow> fields \<Rightarrow> string list result \<times> 'db world" where
  "DetailWaitSyncMetaSuccessTables env w cond =
     meta_call env w
       (map (\<lambda>r. str_of (r TableNameS)) (filter (matches cond) (wait_sync_meta w))) id"

definition DeleteWaitSyncMetaSuccessTables ::
  "'db env \<Rightarrow> 'db world \<Rightarrow> fields \<Rightarrow> string list \<Rightarrow> unit result \<times> 'db world" where
  "DeleteWaitSyncMetaSuccessTables env w cond tables =
     meta_call env w ()
       (\<lambda>w. w\<lparr>wait_sync_meta :=
                filter (\<lambda>r. \<not> (matches cond r \<and> str_of (r TableNameS) \<in> set tables))
                       (wait_sync_meta w)\<rparr>)"

definition CountsErrWaitSyncMetaBySchema ::
  "'db env \<Rightarrow> 'db world \<Rightarrow> fields \<Rightarrow> int result \<times> 'db world" where
  "CountsErrWaitSyncMetaBySchema env w cond =
     meta_call env w (int (length (filter (matches cond) (wait_sync_meta w)))) id"

definition DetailWaitSyncMeta ::
  "'db env \<Rightarrow> 'db world \<Rightarrow> fields \<Rightarrow> meta_row list result \<times> 'db world" where
  "DetailWaitSyncMeta env w cond =
     meta_call env w (filter (matches cond) (wait_sync_meta w)) id"

definition QueryWaitSyncMetaByPartTask ::
  "'db env \<Rightarrow> 'db world \<Rightarrow> fields \<Rightarrow> meta_row list result \<times> 'db world" where
  "QueryWaitSyncMetaByPartTask env w cond =
     meta_call env w (filter (matches cond) (wait_sync_meta w)) id"

definition CreateWaitSyncMeta ::
  "'db env \<Rightarrow> 'db world \<Rightarrow> fields \<Rightarrow> unit result \<times> 'db world" where
  "CreateWaitSyncMeta env w fs =
     (if list_ex (same_key wait_key (mk_row fs)) (wait_sync_meta w)
      then andThen (meta_call env w () id) (\<lambda>u w. (Err duplicate_key, w))
      else meta_call env w () (\<lambda>w. w\<lparr>wait_sync_meta := wait_sync_meta w @ [mk_row fs]\<rparr>))"

definition DeleteWaitSyncMeta ::
  "'db env \<Rightarrow> 'db world \<Rightarrow> fields \<Rightarrow> unit result \<times> 'db world" where
  "DeleteWaitSyncMeta env w cond =
     meta_call env w ()
       (\<lambda>w. w\<lparr>wait_sync_meta := filter (\<lambda>r. \<not> matches cond r) (wait_sync_meta w)\<rparr>)"

definition UpdateWaitSyncMeta ::
  "'db env \<Rightarrow> 'db world \<Rightarrow> fields \<Rightarrow> fields \<Rightarrow> unit result \<times> 'db world" where
  "UpdateWaitSyncMeta env w cond upds =
     meta_call env w ()
       (\<lambda>w. w\<lparr>wait_sync_meta :=
                map (\<lambda>r. if matches cond r then set_fields upds r else r) (wait_sync_meta w)\<rparr>)"

definition DeleteFullSyncMetaBySchemaSyncMode ::
  "'db env \<Rightarrow> 'db world \<Rightarrow> fields \<Rightarrow> unit result \<times> 'db world" where
  "DeleteFullSyncMetaBySchemaSyncMode env w cond =
     meta_call env w ()
       (\<lambda>w. w\<lparr>full_sync_meta := filter (\<lambda>r. \<not> matches cond r) (full_sync_meta w)\<rparr>)"

definition DistinctFullSyncMetaTableNameSByTaskStatus ::
  "'db env \<Rightarrow> 'db world \<Rightarrow> fields \<Rightarrow> string list result \<times> 'db world" where
  "DistinctFullSyncMetaTableNameSByTaskStatus env w cond =
     meta_call env w
       (remdups (map (\<lambda>r. str_of (r TableNameS)) (filter (matches cond) (full_sync_meta w)))) id"

definition CountsFullSyncMetaByTaskTable ::
  "'db env \<Rightarrow> 'db world \<Rightarrow> fields \<Rightarrow> int result \<times> 'db world" where
  "CountsFullSyncMetaByTaskTable env w cond =
     meta_call env w (int (length (filter (matches cond) (full_sync_meta w)))) id"

definition CountsErrorFullSyncMeta ::
  "'db env \<Rightarrow> 'db world \<Rightarrow> fields \<Rightarrow> int result \<times> 'db world" where
  "CountsErrorFullSyncMeta env w cond =
     meta_call env w (int (length (filter (matches cond) (full_sync_meta w)))) id"

definition DetailFullSyncMeta ::
  "'db env \<Rightarrow> 'db world \<Rightarrow> fields \<Rightarrow> meta_row list result \<times> 'db world" where
  "DetailFullSyncMeta env w cond =
     meta_call env w (filter (matches cond) (full_sync_meta w)) id"

definition UpdateFullSyncMeta ::
  "'db env \<Rightarrow> 'db world \<Rightarrow> fields \<Rightarrow> fields \<Rightarrow> unit result \<times> 'db world" where
  "UpdateFullSyncMeta env w cond upds =
     meta_call env w ()
       (\<lambda>w. w\<lparr>full_sync_meta :=
                map (\<lambda>r. if matches cond r then set_fields upds r else r) (full_sync_meta w)\<rparr>)"

definition insert_full :: "meta_row list \<Rightarrow> meta_row list \<Rightarrow> meta_row list option" where
  "insert_full new rows =
     (if distinct (map (\<lambda>r. map r full_key) new) \<and>
         (\<forall>r \<in> set new. \<not> list_ex (same_key full_key r) rows)
      then Some (rows @ new) else None)"

definition BatchCreateFullSyncMeta ::
  "'db env \<Rightarrow> 'db world \<Rightarrow> meta_row list \<Rightarrow> int \<Rightarrow> unit result \<times> 'db world" where
  "BatchCreateFullSyncMeta env w new batchSize =
     (case insert_full new (full_sync_meta w) of
        None \<Rightarrow> andThen (meta_call env w () id) (\<lambda>u w. (Err duplicate_key, w))
      | Some rows \<Rightarrow> meta_call env w () (\<lambda>w. w\<lparr>full_sync_meta := rows\<rparr>))"

definition CreateFullSyncMetaAndUpdateWaitSyncMeta ::
  "'db env \<Rightarrow> 'db world \<Rightarrow> fields \<Rightarrow> fields \<Rightarrow> unit result \<times> 'db world" where
  "CreateFullSyncMetaAndUpdateWaitSyncMeta env w fullFs waitFs =
     (case insert_full [mk_row fullFs] (full_sync_meta w) of
        None \<Rightarrow> andThen (meta_call env w () id) (\<lambda>u w. (Err duplicate_key, w))
      | Some rows \<Rightarrow>
          meta_call env w ()
            (\<lambda>w. w\<lparr>full_sync_meta := rows,
                    wait_sync_meta :=
                      map (\<lambda>r. if matches (key_of wait_key waitFs) r
                                then set_fields (patch_of wait_key waitFs) r else r)
                          (wait_sync_meta w)\<rparr>))"

definition DeleteTableFullSyncMetaAndUpdateWaitSyncMeta ::
  "'db env \<Rightarrow> 'db world \<Rightarrow> fields \<Rightarrow> fields \<Rightarrow> unit result \<times> 'db world" where
  "DeleteTableFullSyncMetaAndUpdateWaitSyncMeta env w fullCond waitFs =
     meta_call env w ()
       (\<lambda>w. w\<lparr>full_sync_meta := filter (\<lambda>r. \<not> matches fullCond r) (full_sync_meta w),
               wait_sync_meta :=
                 map (\<lambda>r. if matches (key_of wait_key waitFs) r
                           then set_fields (patch_of wait_key waitFs) r else r)
                     (wait_sync_meta w)\<rparr>)"

subsection \<open>The sink and the helpers of package common\<close>

definition TruncateMySQLTable ::
  "'db env \<Rightarrow> 'db world \<Rightarrow> string \<Rightarrow> string \<Rightarrow> unit result \<times> 'db world" where
  "TruncateMySQLTable env w schemaName tableName =
     (case truncate_fault env schemaName tableName of
        Some e \<Rightarrow> (Err e, w)
      | None \<Rightarrow> (Ok (), w\<lparr>truncated := truncated w @ [(schemaName, tableName)]\<rparr>))"

text \<open>
  Modelled from the spec: \<open>common.StringUPPER\<close>, \<open>common.IsContainString\<close>,
  \<open>common.FilterDifferenceStringItems\<close> and \<open>common.FilterIntersectionStringItems\<close>,
  which are not among the sources: upper-casing, membership, and the set difference
  and intersection the spec writes \<open>prior_success - exporters\<close> and
  \<open>prior_success \<inter> exporters\<close>.
\<close>

definition StringUPPER :: "string \<Rightarrow> string" where
  "StringUPPER s = ToUpper s"

definition IsContainString :: "string list \<Rightarrow> string \<Rightarrow> bool" where
  "IsContainString items item = (item \<in> set items)"

definition FilterDifferenceStringItems :: "string list \<Rightarrow> string list \<Rightarrow> string list" where
  "FilterDifferenceStringItems a b = filter (\<lambda>x. x \<notin> set b) a"

definition FilterIntersectionStringItems :: "string list \<Rightarrow> string list \<Rightarrow> string list" where
  "FilterIntersectionStringItems a b = filter (\<lambda>x. x \<in> set b) a"

definition of_sum :: "error + 'a \<Rightarrow> 'w \<Rightarrow> 'a result \<times> 'w" where
  "of_sum r w = (case r of Inl e \<Rightarrow> (Err e, w) | Inr a \<Rightarrow> (Ok a, w))"

section \<open>Orchestrator, chunker and planner\<close>

abbreviation fDBTypeS :: "Config \<Rightarrow> column \<times> val" where
  "fDBTypeS cfg \<equiv> (DBTypeS, S (CfgDBTypeS cfg))"

abbreviation fDBTypeT :: "Config \<Rightarrow> column \<times> val" where
  "fDBTypeT cfg \<equiv> (DBTypeT, S (CfgDBTypeT cfg))"

abbreviation fTaskMode :: "Config \<Rightarrow> column \<times> val" where
  "fTaskMode cfg \<equiv> (TaskMode, S (CfgTaskMode cfg))"

subsection \<open>One chunk\<close>

text \<open>
  The three error branches of the chunk worker are the same update of the chunk's own
  row, under the key read from the row, and differ in the message only. The worker
  returns nil once the failure is recorded; it returns an error only when the update
  itself fails.
\<close>

definition chunk_key :: "meta_row \<Rightarrow> fields" where
  "chunk_key m =
     [(DBTypeS, m DBTypeS), (DBTypeT, m DBTypeT), (SchemaNameS, m SchemaNameS),
      (TableNameS, m TableNameS), (TaskMode, m TaskMode), (ChunkDetailS, m ChunkDetailS)]"

definition record_failed ::
  "'db env \<Rightarrow> meta_row \<Rightarrow> string \<Rightarrow> error \<Rightarrow> 'db world \<Rightarrow> unit result \<times> 'db world" where
  "record_failed env m stage err w =
     (case UpdateFullSyncMeta env w (chunk_key m)
             [(TaskStatus, S TaskStatusFailed), (InfoDetail, S (String env m)),
              (ErrorDetail, S (Error err))] of
        (Ok u, w') \<Rightarrow> (Ok (), w')
      | (Err errf, w') \<Rightarrow>
          (Err (Wrap (''get oracle schema table '' @ stage @ '' failed'') errf), w')
      | (Panic, w') \<Rightarrow> (Panic, w'))"

text \<open>
  The function handed to \<open>g1.Go\<close> for one chunk row \<open>m\<close> (module/migrate/o2m/full.go,
  lines 394 to 471). \<open>chunks_run\<close> notes that the chunk was started.
\<close>

definition chunk_task :: "'db env \<Rightarrow> meta_row \<Rightarrow> 'db world \<Rightarrow> unit result \<times> 'db world" where
  "chunk_task env m w0 =
     (let w = w0\<lparr>chunks_run := chunks_run w0 @ [m]\<rparr>
      in case IExtractor env m of
           Inl err \<Rightarrow> record_failed env m ''IExtractor'' err w
         | Inr (columnFields, batchResults) \<Rightarrow>
             (case ITranslator env m columnFields batchResults of
                Some err \<Rightarrow> record_failed env m ''ITranslator'' err w
              | None \<Rightarrow>
                  (case IApplier env m columnFields batchResults of
                     Some err \<Rightarrow> record_failed env m ''IApplier'' err w
                   | None \<Rightarrow>
                       (case UpdateFullSyncMeta env w (chunk_key m)
                               [(TaskStatus, S TaskStatusSuccess)] of
                          (Ok u, w') \<Rightarrow> (Ok (), w')
                        | (Err errf, w') \<Rightarrow>
                            (Err (Wrap ''get oracle schema table Success failed'' errf), w')
                        | (Panic, w') \<Rightarrow> (Panic, w')))))"

subsection \<open>One table, and \<open>fullPartSyncTable\<close>\<close>

text \<open>
  The function handed to \<open>g.Go\<close> for one table \<open>t\<close> (lines 363 to 542): mark the table
  RUNNING, load its WAITING chunks, run them in the inner group, count the FAILED chunks
  of the table, and close the table one way or the other. \<open>fullMetas\<close> is the list of
  chunks loaded for this run.
\<close>

definition part_table_task ::
  "'db env \<Rightarrow> Config \<Rightarrow> string \<Rightarrow> 'db world \<Rightarrow> unit result \<times> 'db world" where
  "part_table_task env cfg t w =
     andThen (UpdateWaitSyncMeta env w
                [fDBTypeS cfg, fDBTypeT cfg, (SchemaNameS, S (OracleSchemaName cfg)),
                 (TableNameS, S (StringUPPER t)), fTaskMode cfg]
                [(TaskStatus, S TaskStatusRunning)]) (\<lambda>u w.
     andThen (DetailFullSyncMeta env w
                [fDBTypeS cfg, fDBTypeT cfg,
                 (SchemaNameS, S (StringUPPER (OracleSchemaName cfg))),
                 (TableNameS, S (StringUPPER t)), fTaskMode cfg,
                 (TaskStatus, S TaskStatusWaiting)]) (\<lambda>fullMetas w.
     andThen (group_run (chunk_task env) fullMetas None w) (\<lambda>u w.
       (case CountsErrorFullSyncMeta env w
               [fDBTypeS cfg, fDBTypeT cfg,
                (SchemaNameS, S (StringUPPER (OracleSchemaName cfg))),
                (TableNameS, S (StringUPPER t)), fTaskMode cfg,
                (TaskStatus, S TaskStatusFailed)] of
          (Err e, w) \<Rightarrow> (Err (Wrap ''get meta table [full_sync_meta] counts failed'' e), w)
        | (Panic, w) \<Rightarrow> (Panic, w)
        | (Ok totalErrs, w) \<Rightarrow>
            if totalErrs = 0 then
              DeleteTableFullSyncMetaAndUpdateWaitSyncMeta env w
                [fDBTypeS cfg, fDBTypeT cfg,
                 (SchemaNameS, S (StringUPPER (OracleSchemaName cfg))),
                 (TableNameS, S (StringUPPER t)), fTaskMode cfg]
                [fDBTypeS cfg, fDBTypeT cfg,
                 (SchemaNameS, S (StringUPPER (OracleSchemaName cfg))),
                 (TableNameS, S (StringUPPER t)), fTaskMode cfg,
                 (TaskStatus, S TaskStatusSuccess),
                 (ChunkSuccessNums, N (int (length fullMetas))),
                 (ChunkFailedNums, N 0)]
            else
              UpdateWaitSyncMeta env w
                [fDBTypeS cfg, fDBTypeT cfg,
                 (SchemaNameS, S (StringUPPER (OracleSchemaName cfg))),
                 (TableNameS, S (StringUPPER t)), fTaskMode cfg]
                [(TaskStatus, S TaskStatusFailed),
                 (ChunkSuccessNums, N (int (length fullMetas) - totalErrs)),
                 (ChunkFailedNums, N totalErrs)]))))"

definition fullPartSyncTable ::
  "'db env \<Rightarrow> Config \<Rightarrow> string list \<Rightarrow> 'db world \<Rightarrow> unit result \<times> 'db world" where
  "fullPartSyncTable env cfg fullPartTables w =
     group_run (part_table_task env cfg) fullPartTables None w"

subsection \<open>Chunking a fresh table: \<open>initWaitSyncTableRowID\<close>\<close>

text \<open>
  \<open>getTableNameRule\<close> (lines 787 to 806) builds the map from what the rule table
  returned; a later rule for the same table overwrites an earlier one.
\<close>

definition getTableNameRule :: "'db env \<Rightarrow> error + (string \<rightharpoonup> string)" where
  "getTableNameRule env =
     (case DetailTableNameRule env of
        Inl e \<Rightarrow> Inl e
      | Inr tableNameRules \<Rightarrow>
          Inr (fold (\<lambda>tr m. m(StringUPPER (fst tr) \<mapsto> StringUPPER (snd tr)))
                    tableNameRules Map.empty))"

text \<open>The chunk row and the table patch the worker writes, for a chunk predicate.\<close>

definition chunk_fields ::
  "Config \<Rightarrow> string \<Rightarrow> string \<Rightarrow> int \<Rightarrow> string \<Rightarrow> string \<Rightarrow> string \<Rightarrow> fields" where
  "chunk_fields cfg t targetTableName globalSCN sourceColumnInfo chunkDetail isPartition =
     [fDBTypeS cfg, fDBTypeT cfg,
      (SchemaNameS, S (StringUPPER (OracleSchemaName cfg))),
      (TableNameS, S (StringUPPER t)),
      (SchemaNameT, S (StringUPPER (MySQLSchemaName cfg))),
      (TableNameT, S (StringUPPER targetTableName)),
      (GlobalScnS, N globalSCN),
      (ColumnDetailS, S sourceColumnInfo),
      (ChunkDetailS, S chunkDetail),
      fTaskMode cfg,
      (TaskStatus, S TaskStatusWaiting),
      (IsPartition, S isPartition)]"

text \<open>
  The write of the two branches that give a table the single chunk \<open>1 = 1\<close> (lines 630
  to 654 and 690 to 714, the same call).
\<close>

definition single_chunk ::
  "'db env \<Rightarrow> Config \<Rightarrow> string \<Rightarrow> string \<Rightarrow> int \<Rightarrow> string \<Rightarrow> string \<Rightarrow> 'db world \<Rightarrow>
   unit result \<times> 'db world" where
  "single_chunk env cfg t targetTableName globalSCN sourceColumnInfo isPartition w =
     CreateFullSyncMetaAndUpdateWaitSyncMeta env w
       (chunk_fields cfg t targetTableName globalSCN sourceColumnInfo ''1 = 1'' isPartition)
       [fDBTypeS cfg, fDBTypeT cfg,
        (SchemaNameS, S (StringUPPER (OracleSchemaName cfg))),
        (TableNameS, S (StringUPPER t)), fTaskMode cfg,
        (GlobalScnS, N globalSCN), (ChunkTotalNums, N 1), (ChunkSuccessNums, N 0),
        (ChunkFailedNums, N 0), (IsPartition, S isPartition)]"

text \<open>
  The function handed to \<open>g.Go\<close> for the table \<open>t\<close> at index \<open>workerID\<close> (lines 593 to
  774). The branch for an empty chunk list returns without \<open>CloseOracleChunkTask\<close>, as
  the source does.
\<close>

definition init_table_task ::
  "'db env \<Rightarrow> Config \<Rightarrow> (string \<rightharpoonup> string) \<Rightarrow> int \<Rightarrow> string list \<Rightarrow> bool \<Rightarrow>
   nat \<times> string \<Rightarrow> 'db world \<Rightarrow> unit result \<times> 'db world" where
  "init_table_task env cfg tableNameRule globalSCN partitionTables oracleCollation it w =
     (let workerID = fst it; t = snd it;
          targetTableName = (case tableNameRule (StringUPPER t) of
                               Some v \<Rightarrow> v | None \<Rightarrow> StringUPPER t)
      in andThen (of_sum (adjustTableSelectColumn
                    (GetOracleSchemaTableColumn env (OracleSchemaName cfg) t oracleCollation)) w)
           (\<lambda>sourceColumnInfo w.
         let isPartition = (if IsContainString partitionTables (StringUPPER t)
                            then ''YES'' else ''NO'')
         in andThen (of_sum (GetOracleTableRowsByStatistics env (OracleSchemaName cfg) t) w)
              (\<lambda>tableRowsByStatistics w.
            if tableRowsByStatistics = 0 then
              single_chunk env cfg t targetTableName globalSCN sourceColumnInfo isPartition w
            else
              let taskName = StringsBuilder [StringUPPER (OracleSchemaName cfg), ''_'',
                               StringUPPER t, ''_'', ''TASK'', fmt_int (int workerID)]
              in andThen (case StartOracleChunkCreateTask (OracleDB env) (oracle_db w) taskName of
                            (r, db) \<Rightarrow> (r, w\<lparr>oracle_db := db\<rparr>)) (\<lambda>u w.
                 andThen (case StartOracleCreateChunkByRowID (OracleDB env) (oracle_db w) taskName
                                 (StringUPPER (OracleSchemaName cfg)) (StringUPPER t)
                                 (fmt_int (CSVRows cfg)) of
                            (r, db) \<Rightarrow> of_sum r (w\<lparr>oracle_db := db\<rparr>)) (\<lambda>u w.
                 andThen (of_sum (GetOracleTableChunksByRowID (OracleDB env) (oracle_db w)
                                    taskName) w) (\<lambda>chunkRes w.
                   if length chunkRes = 0 then
                     single_chunk env cfg t targetTableName globalSCN sourceColumnInfo
                       isPartition w
                   else
                     let fullMetas =
                           map (\<lambda>res. mk_row (chunk_fields cfg t targetTableName globalSCN
                                                sourceColumnInfo (go_index res ''CMD'')
                                                isPartition)) chunkRes
                     in andThen (BatchCreateFullSyncMeta env w fullMetas (InsertBatchSize cfg))
                          (\<lambda>u w.
                        andThen (UpdateWaitSyncMeta env w
                                   [fDBTypeS cfg, fDBTypeT cfg,
                                    (SchemaNameS, S (StringUPPER (OracleSchemaName cfg))),
                                    (TableNameS, S (StringUPPER t)), fTaskMode cfg]
                                   [(GlobalScnS, N globalSCN),
                                    (ChunkTotalNums, N (int (length chunkRes))),
                                    (ChunkSuccessNums, N 0), (ChunkFailedNums, N 0),
                                    (IsPartition, S isPartition)]) (\<lambda>u w.
                        (case CloseOracleChunkTask (OracleDB env) (oracle_db w) taskName of
                           Inl e \<Rightarrow> (Err e, w)
                         | Inr db \<Rightarrow> (Ok (), w\<lparr>oracle_db := db\<rparr>))))))))))"

text \<open>
  \<open>initWaitSyncTableRowID\<close> (lines 569 to 785): the rules, the snapshot id and the
  partitioned tables are read once, then one worker per table.
\<close>

definition initWaitSyncTableRowID ::
  "'db env \<Rightarrow> Config \<Rightarrow> string list \<Rightarrow> bool \<Rightarrow> 'db world \<Rightarrow> unit result \<times> 'db world" where
  "initWaitSyncTableRowID env cfg csvWaitTables oracleCollation w =
     andThen (of_sum (getTableNameRule env) w) (\<lambda>tableNameRule w.
     andThen (GetOracleCurrentSnapshotSCN (OracleDB env) (oracle_db w), w) (\<lambda>globalSCN w.
     andThen (of_sum (GetOracleSchemaPartitionTable env) w) (\<lambda>partitionTables w.
       group_run (init_table_task env cfg tableNameRule (int globalSCN) partitionTables
                    oracleCollation)
                 (zip [0 ..< length csvWaitTables] csvWaitTables) None w)))"

definition fullWaitSyncTable ::
  "'db env \<Rightarrow> Config \<Rightarrow> string list \<Rightarrow> bool \<Rightarrow> 'db world \<Rightarrow> unit result \<times> 'db world" where
  "fullWaitSyncTable env cfg fullWaitTables oracleCollation w =
     andThen (initWaitSyncTableRowID env cfg fullWaitTables oracleCollation w) (\<lambda>u w.
       fullPartSyncTable env cfg fullWaitTables w)"

subsection \<open>The planner: \<open>Full\<close>\<close>

text \<open>\<open>Full\<close>, in the order of the source, each step a definition of its own.\<close>

text \<open>
  The conditions of lines 90 to 96 and 122 to 128, and the clearing of the SUCCESS
  tables that are no longer configured (lines 90 to 114).
\<close>

definition success_cond :: "Config \<Rightarrow> fields" where
  "success_cond cfg =
     [fDBTypeS cfg, fDBTypeT cfg, (SchemaNameS, S (StringUPPER (OracleSchemaName cfg))),
      fTaskMode cfg, (TaskStatus, S TaskStatusSuccess)]"

definition failed_cond :: "Config \<Rightarrow> fields" where
  "failed_cond cfg =
     [fDBTypeS cfg, fDBTypeT cfg, (SchemaNameS, S (StringUPPER (OracleSchemaName cfg))),
      fTaskMode cfg, (TaskStatus, S TaskStatusFailed)]"

definition clear_success ::
  "'db env \<Rightarrow> Config \<Rightarrow> string list \<Rightarrow> 'db world \<Rightarrow> unit result \<times> 'db world" where
  "clear_success env cfg exporters w =
     andThen (DetailWaitSyncMetaSuccessTables env w (success_cond cfg)) (\<lambda>tablesByMeta w.
       let clearTables = FilterDifferenceStringItems tablesByMeta exporters
       in if length clearTables > 0
          then DeleteWaitSyncMetaSuccessTables env w (success_cond cfg) clearTables
          else (Ok (), w))"

text \<open>
  The count of FAILED tables (lines 122 to 131): the run is refused when any is found or
  the count itself fails.
\<close>

definition remediation_message :: string where
  "remediation_message = ''table task failed, meta table [wait_sync_meta] exist failed error, please firstly check log and deal, secondly clear or update meta table [wait_sync_meta] column [task_status] table status WAITING (Need UPPER), thirdly clear meta table [full_sync_meta] error table record, fively clear target schema error table record, finally rerunning''"

definition failed_check :: "'db env \<Rightarrow> Config \<Rightarrow> 'db world \<Rightarrow> unit result \<times> 'db world" where
  "failed_check env cfg w =
     (case CountsErrWaitSyncMetaBySchema env w (failed_cond cfg) of
        (Ok errTotals, w') \<Rightarrow> if errTotals > 0 then (Err (Msg remediation_message), w') else (Ok (), w')
      | (Err e, w') \<Rightarrow> (Err (Wrap remediation_message e), w')
      | (Panic, w') \<Rightarrow> (Panic, w'))"

text \<open>The body of the loop of lines 134 to 160.\<close>

definition register_exporter ::
  "'db env \<Rightarrow> Config \<Rightarrow> string \<Rightarrow> 'db world \<Rightarrow> unit result \<times> 'db world" where
  "register_exporter env cfg tableName w =
     andThen (DetailWaitSyncMeta env w
                [fDBTypeS cfg, fDBTypeT cfg,
                 (SchemaNameS, S (StringUPPER (OracleSchemaName cfg))),
                 (TableNameS, S tableName), fTaskMode cfg]) (\<lambda>waitSyncMetas w.
       if length waitSyncMetas = 0 then
         CreateWaitSyncMeta env w
           [fDBTypeS cfg, fDBTypeT cfg,
            (SchemaNameS, S (StringUPPER (OracleSchemaName cfg))),
            (TableNameS, S (StringUPPER tableName)), fTaskMode cfg,
            (TaskStatus, S TaskStatusWaiting),
            (GlobalScnS, N (TaskTableDefaultSourceGlobalSCN env)),
            (ChunkTotalNums, N (TaskTableDefaultSplitChunkNums env))]
       else (Ok (), w))"

text \<open>
  The block under \<open>!EnableCheckpoint\<close> (lines 165 to 217) and the body of its loop
  (lines 176 to 216). The literal of the second \<open>CreateWaitSyncMeta\<close> names no
  \<open>TaskStatus\<close>.
\<close>

definition wipe_exporter ::
  "'db env \<Rightarrow> Config \<Rightarrow> string \<Rightarrow> 'db world \<Rightarrow> unit result \<times> 'db world" where
  "wipe_exporter env cfg tableName w =
     andThen (DeleteWaitSyncMeta env w
                [fDBTypeS cfg, fDBTypeT cfg, (SchemaNameS, S (OracleSchemaName cfg)),
                 (TableNameS, S tableName), fTaskMode cfg]) (\<lambda>u w.
     andThen (TruncateMySQLTable env w (MySQLSchemaName cfg) tableName) (\<lambda>u w.
     andThen (DetailWaitSyncMeta env w
                [fDBTypeS cfg, fDBTypeT cfg,
                 (SchemaNameS, S (StringUPPER (OracleSchemaName cfg))),
                 (TableNameS, S tableName), fTaskMode cfg]) (\<lambda>waitSyncMetas w.
       if length waitSyncMetas = 0 then
         CreateWaitSyncMeta env w
           [fDBTypeS cfg, fDBTypeT cfg,
            (SchemaNameS, S (StringUPPER (OracleSchemaName cfg))),
            (TableNameS, S (StringUPPER tableName)), fTaskMode cfg,
            (GlobalScnS, N (TaskTableDefaultSourceGlobalSCN env)),
            (ChunkTotalNums, N (TaskTableDefaultSplitChunkNums env))]
       else (Ok (), w))))"

definition checkpoint_wipe ::
  "'db env \<Rightarrow> Config \<Rightarrow> string list \<Rightarrow> 'db world \<Rightarrow> unit result \<times> 'db world" where
  "checkpoint_wipe env cfg exporters w =
     (if \<not> EnableCheckpoint cfg then
        andThen (DeleteFullSyncMetaBySchemaSyncMode env w
                   [fDBTypeS cfg, fDBTypeT cfg, (SchemaNameS, S (OracleSchemaName cfg)),
                    fTaskMode cfg]) (\<lambda>u w.
          for_each (wipe_exporter env cfg) exporters w)
      else (Ok (), w))"

text \<open>
  The rest of \<open>Full\<close> (lines 219 to 352): the tables to chunk, the tables to resume, the
  check that the resumable tables have the chunks their \<open>ChunkTotalNums\<close> says (the
  loop of lines 276 to 294), and the two drives.
\<close>

definition wait_cond :: "'db env \<Rightarrow> Config \<Rightarrow> fields" where
  "wait_cond env cfg =
     [fDBTypeS cfg, fDBTypeT cfg, (SchemaNameS, S (StringUPPER (OracleSchemaName cfg))),
      fTaskMode cfg, (TaskStatus, S TaskStatusWaiting),
      (GlobalScnS, N (TaskTableDefaultSourceGlobalSCN env)),
      (ChunkTotalNums, N (TaskTableDefaultSplitChunkNums env))]"

fun check_part ::
  "'db env \<Rightarrow> Config \<Rightarrow> string list \<Rightarrow> meta_row list \<Rightarrow> string list \<Rightarrow> 'db world \<Rightarrow>
   string list result \<times> 'db world" where
  "check_part env cfg waitFullChunkTables [] panicTblFullSlice w = (Ok panicTblFullSlice, w)"
| "check_part env cfg waitFullChunkTables (partSyncTable # rest) panicTblFullSlice w =
     (if \<not> IsContainString waitFullChunkTables (str_of (partSyncTable TableNameS)) then
        check_part env cfg waitFullChunkTables rest
          (panicTblFullSlice @ [str_of (partSyncTable TableNameS)]) w
      else
        (case CountsFullSyncMetaByTaskTable env w
                [fDBTypeS cfg, fDBTypeT cfg,
                 (SchemaNameS, S (StringUPPER (OracleSchemaName cfg))),
                 (TableNameS, partSyncTable TableNameS), fTaskMode cfg] of
           (Err e, w') \<Rightarrow> (Err e, w')
         | (Panic, w') \<Rightarrow> (Panic, w')
         | (Ok counts, w') \<Rightarrow>
             check_part env cfg waitFullChunkTables rest
               (if counts \<noteq> int_of (partSyncTable ChunkTotalNums)
                then panicTblFullSlice @ [str_of (partSyncTable TableNameS)]
                else panicTblFullSlice) w'))"

definition run_tables ::
  "'db env \<Rightarrow> Config \<Rightarrow> bool \<Rightarrow> 'db world \<Rightarrow> unit result \<times> 'db world" where
  "run_tables env cfg oracleCollation w =
     andThen (DetailWaitSyncMeta env w (wait_cond env cfg)) (\<lambda>waitSyncDetails w.
       let waitSyncTables = map (\<lambda>table. StringUPPER (str_of (table TableNameS))) waitSyncDetails
       in
     andThen (QueryWaitSyncMetaByPartTask env w
                [fDBTypeS cfg, fDBTypeT cfg,
                 (SchemaNameS, S (StringUPPER (OracleSchemaName cfg))),
                 fTaskMode cfg, (TaskStatus, S TaskStatusRunning)]) (\<lambda>partSyncDetails w.
       let partSyncTables = map (\<lambda>t. StringUPPER (str_of (t TableNameS))) partSyncDetails
       in
     andThen (DistinctFullSyncMetaTableNameSByTaskStatus env w
                [fDBTypeS cfg, fDBTypeT cfg,
                 (SchemaNameS, S (StringUPPER (OracleSchemaName cfg))),
                 fTaskMode cfg, (TaskStatus, S TaskStatusWaiting)]) (\<lambda>waitFullChunkTables w.
     andThen (check_part env cfg waitFullChunkTables partSyncDetails [] w)
       (\<lambda>panicTblFullSlice w.
       if length panicTblFullSlice \<noteq> 0 \<or> length partSyncTables \<noteq> length waitFullChunkTables
       then (Err (Msg ''checkpoint isn't consistent, can't be resume, please reruning [enable-checkpoint = fase]''), w)
       else
     andThen (if length partSyncTables > 0
              then fullPartSyncTable env cfg partSyncTables w else (Ok (), w)) (\<lambda>u w.
     andThen (if length waitSyncTables > 0
              then fullWaitSyncTable env cfg waitSyncTables oracleCollation w
              else (Ok (), w)) (\<lambda>u w.
     andThen (DetailWaitSyncMeta env w (success_cond cfg)) (\<lambda>succTotals w.
     andThen (DetailWaitSyncMeta env w (failed_cond cfg)) (\<lambda>failedTotals w.
       (Ok (), w)))))))))"

definition Full :: "'db env \<Rightarrow> Config \<Rightarrow> 'db world \<Rightarrow> unit result \<times> 'db world" where
  "Full env cfg w =
     (case GetOracleDBVersion env of
        Inl e \<Rightarrow> (Err e, w)
      | Inr oracleDBVersion \<Rightarrow>
          if VersionOrdinal env oracleDBVersion < VersionOrdinal env (RequireOracleDBVersion env)
          then (Err (Msg ''oracle db version is less than 11g, can't be using transferdb tools''), w)
          else
            let oracleCollation =
                  (VersionOrdinal env oracleDBVersion
                     \<ge> VersionOrdinal env (OracleTableColumnCollationDBVersion env))
            in case filterCFGTable env of
                 Inl e \<Rightarrow> (Err e, w)
               | Inr exporters \<Rightarrow>
                   andThen (clear_success env cfg exporters w) (\<lambda>u w.
                   andThen (failed_check env cfg w) (\<lambda>u w.
                   andThen (for_each (register_exporter env cfg) exporters w) (\<lambda>u w.
                   andThen (checkpoint_wipe env cfg exporters w) (\<lambda>u w.
                     run_tables env cfg oracleCollation w)))))"

subsection \<open>The outcome of a chunk's three stages\<close>



section \<open>A configuration, an environment and worlds to run the engine on\<close>

definition cfg1 :: Config where
  "cfg1 = \<lparr>CfgDBTypeS = ''ORACLE'', CfgDBTypeT = ''MYSQL'', OracleSchemaName = ''S'',
           MySQLSchemaName = ''D'', CfgTaskMode = ''FULL'', EnableCheckpoint = True,
           InsertBatchSize = 100, CSVRows = 1000\<rparr>"

text \<open>
  A healthy environment: Oracle 19 against the \<open>DBMS_PARALLEL_EXECUTE\<close> model above, one
  configured table \<open>T1\<close> with a single NUMBER column and statistics of five rows, no
  failing call anywhere, every stage of every chunk succeeding.
\<close>

definition env1 :: "pe_db env" where
  "env1 = \<lparr>OracleDB = pe_ops,
           meta_fault = (\<lambda>n. None),
           truncate_fault = (\<lambda>s t. None),
           GetOracleDBVersion = Inr ''19'',
           VersionOrdinal = (\<lambda>v. if v = ''19'' then 19 else if v = ''12.2'' then 12 else 11),
           RequireOracleDBVersion = ''11'',
           OracleTableColumnCollationDBVersion = ''12.2'',
           filterCFGTable = Inr [''T1''],
           TaskTableDefaultSourceGlobalSCN = 0,
           TaskTableDefaultSplitChunkNums = 0,
           DetailTableNameRule = Inr [],
           GetOracleSchemaPartitionTable = Inr [],
           GetOracleTableRowsByStatistics = (\<lambda>s t. Inr 5),
           GetOracleSchemaTableColumn =
             (\<lambda>s t c. Inr [[''COLUMN_NAME'' \<mapsto> ''ID'', ''DATA_TYPE'' \<mapsto> ''NUMBER'']]),
           IExtractor = (\<lambda>m. Inr ([''`ID`''], [''(1)''])),
           ITranslator = (\<lambda>m c b. None),
           IApplier = (\<lambda>m c b. None),
           String = (\<lambda>m. str_of (m TableNameS) @ '' '' @ str_of (m ChunkDetailS))\<rparr>"

text \<open>The same with a metadata store that is down, and with an extract that fails.\<close>

definition env_meta_down :: "pe_db env" where
  "env_meta_down = env1\<lparr>meta_fault := (\<lambda>n. Some (Driver ''connection lost''))\<rparr>"

definition env_extract_fails :: "pe_db env" where
  "env_extract_fails = env1\<lparr>IExtractor := (\<lambda>m. Inl (Driver ''ORA-01555''))\<rparr>"

text \<open>
  Table \<open>T1\<close> of three chunks, interrupted: the table is RUNNING, the first chunk
  succeeded in the run before, the other two wait.
\<close>

definition chunk_of :: "string \<Rightarrow> string \<Rightarrow> meta_row" where
  "chunk_of predicate status =
     mk_row [(DBTypeS, S ''ORACLE''), (DBTypeT, S ''MYSQL''), (SchemaNameS, S ''S''),
             (TableNameS, S ''T1''), (SchemaNameT, S ''D''), (TableNameT, S ''T1''),
             (GlobalScnS, N 42), (ColumnDetailS, S ''ID''), (ChunkDetailS, S predicate),
             (TaskMode, S ''FULL''), (TaskStatus, S status), (IsPartition, S ''NO'')]"

definition table_of :: "string \<Rightarrow> string \<Rightarrow> int \<Rightarrow> int \<Rightarrow> meta_row" where
  "table_of name status scn chunkTotal =
     mk_row [(DBTypeS, S ''ORACLE''), (DBTypeT, S ''MYSQL''), (SchemaNameS, S ''S''),
             (TableNameS, S name), (TaskMode, S ''FULL''), (TaskStatus, S status),
             (GlobalScnS, N scn), (ChunkTotalNums, N chunkTotal)]"

definition w_resumed :: "pe_db world" where
  "w_resumed =
     \<lparr>wait_sync_meta = [table_of ''T1'' ''RUNNING'' 42 3],
      full_sync_meta = [chunk_of (rowid_between ''a'' ''b'') ''SUCCESS'',
                        chunk_of (rowid_between ''c'' ''d'') ''WAITING'',
                        chunk_of (rowid_between ''e'' ''f'') ''WAITING''],
      meta_calls = 0, truncated = [], chunks_run = [], oracle_db = db0\<rparr>"

text \<open>
  The same table interrupted after two of its chunks were recorded FAILED and before
  the third was started.
\<close>

definition w_crashed :: "pe_db world" where
  "w_crashed =
     \<lparr>wait_sync_meta = [table_of ''T1'' ''RUNNING'' 42 3],
      full_sync_meta = [chunk_of (rowid_between ''a'' ''b'') ''FAILED'',
                        chunk_of (rowid_between ''c'' ''d'') ''FAILED'',
                        chunk_of (rowid_between ''e'' ''f'') ''WAITING''],
      meta_calls = 0, truncated = [], chunks_run = [], oracle_db = db0\<rparr>"

text \<open>
  A store with nothing in it; table \<open>T1\<close> registered and never chunked; and two
  tables of an earlier run, \<open>A\<close> done and \<open>B\<close> failed.
\<close>

definition w_empty :: "pe_db world" where
  "w_empty = \<lparr>wait_sync_meta = [], full_sync_meta = [], meta_calls = 0, truncated = [],
              chunks_run = [], oracle_db = db0\<rparr>"

definition w_fresh :: "pe_db world" where
  "w_fresh = w_empty\<lparr>wait_sync_meta := [table_of ''T1'' ''WAITING'' 0 0]\<rparr>"

definition w_failed :: "pe_db world" where
  "w_failed = w_empty\<lparr>wait_sync_meta := [table_of ''A'' ''SUCCESS'' 42 1,
                                           table_of ''B'' ''FAILED'' 42 1]\<rparr>"

definition cfg_off :: Config where
  "cfg_off = cfg1\<lparr>EnableCheckpoint := False\<rparr>"

text \<open>The same Oracle with two row-id ranges to cut \<open>S.T1\<close> into.\<close>

definition db2 :: pe_db where
  "db2 = db0\<lparr>table_ranges := [((''S'', ''T1''), [(''a'', ''b''), (''c'', ''d'')])]\<rparr>"

subsection \<open>Names for the statements below\<close>


definition kept :: "Config \<Rightarrow> string list \<Rightarrow> meta_row \<Rightarrow> bool" where
  "kept cfg tables r = (\<not> (matches (success_cond cfg) r \<and> str_of (r TableNameS) \<in> set tables))"



section \<open>Verified properties\<close>

subsection \<open>Unchecked first-row reads\<close>

text \<open>
  C9. \<open>GetOracleCurrentSnapshotSCN\<close> and \<open>StartOracleChunkCreateTask\<close> read \<open>res[0]\<close>
  with no length check. When the query answers with at least one row neither panics;
  when it answers with no row both panic, and do not return an error value.
\<close>

theorem first_row_unchecked:
  "(Query ora db SelectCurrentSCN = Inr res \<and> res \<noteq> [] \<longrightarrow>
      GetOracleCurrentSnapshotSCN ora db \<noteq> Panic) \<and>
   (Query ora db SelectCurrentSCN = Inr [] \<longrightarrow> GetOracleCurrentSnapshotSCN ora db = Panic) \<and>
   (Query ora db (CountChunks t) = Inr res' \<and> res' \<noteq> [] \<longrightarrow>
      fst (StartOracleChunkCreateTask ora db t) \<noteq> Panic) \<and>
   (Query ora db (CountChunks t) = Inr [] \<longrightarrow>
      StartOracleChunkCreateTask ora db t = (Panic, db))"
proof (intro conjI impI)
  assume "Query ora db SelectCurrentSCN = Inr res \<and> res \<noteq> []"
  then show "GetOracleCurrentSnapshotSCN ora db \<noteq> Panic"
    by (cases res) (simp_all add: GetOracleCurrentSnapshotSCN_def StrconvUintBitSize_def ParseUint_def)
next
  assume "Query ora db SelectCurrentSCN = Inr []"
  then show "GetOracleCurrentSnapshotSCN ora db = Panic"
    by (simp add: GetOracleCurrentSnapshotSCN_def)
next
  assume "Query ora db (CountChunks t) = Inr res' \<and> res' \<noteq> []"
  then show "fst (StartOracleChunkCreateTask ora db t) \<noteq> Panic"
    by (cases res') (simp_all add: StartOracleChunkCreateTask_def split: sum.splits)
next
  assume "Query ora db (CountChunks t) = Inr []"
  then show "StartOracleChunkCreateTask ora db t = (Panic, db)"
    by (simp add: StartOracleChunkCreateTask_def)
qed

theorem first_row_unchecked_witness:
  "Query pe_ops db0 SelectCurrentSCN = Inr [[''CURRENT_SCN'' \<mapsto> ''42'']] \<and>
   GetOracleCurrentSnapshotSCN pe_ops db0 \<noteq> Panic \<and>
   Query norow_ops db0 SelectCurrentSCN = Inr [] \<and>
   GetOracleCurrentSnapshotSCN norow_ops db0 = Panic \<and>
   Query pe_ops db0 (CountChunks ''S_T_TASK0'') = Inr [[''COUNT'' \<mapsto> ''0'']] \<and>
   fst (StartOracleChunkCreateTask pe_ops db0 ''S_T_TASK0'') \<noteq> Panic \<and>
   Query norow_ops db0 (CountChunks ''S_T_TASK0'') = Inr [] \<and>
   StartOracleChunkCreateTask norow_ops db0 ''S_T_TASK0'' = (Panic, db0)"
proof -
  have q1: "Query pe_ops db0 SelectCurrentSCN = Inr [[''CURRENT_SCN'' \<mapsto> ''42'']]"
    by (simp add: pe_ops_def db0_def digits_of.simps)
  have q2: "Query pe_ops db0 (CountChunks ''S_T_TASK0'') = Inr [[''COUNT'' \<mapsto> ''0'']]"
    by (simp add: pe_ops_def db0_def task_chunks_def digits_of.simps)
  have q3: "Query norow_ops db0 s = Inr []" for s
    by (simp add: norow_ops_def)
  from first_row_unchecked [of pe_ops db0 "[[''CURRENT_SCN'' \<mapsto> ''42'']]" "''S_T_TASK0''"
                               "[[''COUNT'' \<mapsto> ''0'']]"]
       first_row_unchecked [of norow_ops db0 "[]" "''S_T_TASK0''" "[]"]
       q1 q2 q3
  show ?thesis by simp
qed

subsection \<open>Row batching\<close>

lemma scan_rows_split:
  "map (row_tuple env cts cols) rs = map Some tuples \<Longrightarrow>
   scan_rows env cts cols n rs tmp batches =
     LoopDone (snd (split_batches n tuples tmp))
              (batches @ map (\<lambda>g. Join g '','') (fst (split_batches n tuples tmp)))"
proof (induction rs arbitrary: tuples tmp batches)
  case Nil
  then show ?case by simp
next
  case (Cons r rs)
  then obtain t ts where tu: "tuples = t # ts" and rt: "row_tuple env cts cols r = Some t"
    and rest: "map (row_tuple env cts cols) rs = map Some ts"
    by (cases tuples) auto
  from rt obtain vals res where sc: "Scan cols r = Inr vals"
    and en: "encode_columns env cts 0 vals [] = RowOk res"
    and t: "t = StringsBuilder [''('', Join res '','', '')'']"
    by (auto simp: row_tuple_def split: sum.splits row_outcome.splits)
  show ?case
    using sc en t tu Cons.IH [OF rest]
    by (simp add: Let_def)
qed

lemma split_batches_concat:
  "concat (fst (split_batches n ts tmp)) @ snd (split_batches n ts tmp) = tmp @ ts"
  by (induction ts arbitrary: tmp) auto

lemma split_batches_sizes:
  "1 \<le> n \<Longrightarrow> int (length tmp) < n \<Longrightarrow>
   (\<forall>g \<in> set (fst (split_batches n ts tmp)). int (length g) = n) \<and>
   int (length (snd (split_batches n ts tmp))) < n"
proof (induction ts arbitrary: tmp)
  case Nil
  then show ?case by simp
next
  case (Cons t ts)
  show ?case
  proof (cases "int (length (tmp @ [t])) = n")
    case True
    with Cons.IH [of "[]"] Cons.prems show ?thesis by simp
  next
    case False
    with Cons.prems have "int (length (tmp @ [t])) < n" by simp
    with Cons.IH [of "tmp @ [t]"] Cons.prems False show ?thesis by simp
  qed
qed

lemma split_batches_nonpos:
  "n \<le> 0 \<Longrightarrow> split_batches n ts tmp = ([], tmp @ ts)"
  by (induction ts arbitrary: tmp) auto

text \<open>
  C10. When every row scans and encodes and \<open>rows.Err()\<close> is nil, the reader returns
  the tuples of the rows, in order, cut into batches: for \<open>insertBatchSize \<ge> 1\<close> every
  batch but the last holds exactly \<open>insertBatchSize\<close> tuples and the last between 1 and
  \<open>insertBatchSize\<close>; no row gives no batch; for \<open>insertBatchSize \<le> 0\<close> the size check
  never fires and all the rows come back as one batch.
\<close>

theorem rows_batched:
  assumes ok: "map (row_tuple env (map ScanType colTypes) (length tmpCols)) (Scans rows) = map Some tuples"
    and c: "Columns rows = Inr tmpCols" and ct: "ColumnTypes rows = Inr colTypes"
    and re: "RowsErr rows = None"
  shows "\<exists>groups.
     GetOracleTableRowsData env (Inr rows) n =
       RowsData (map (\<lambda>col. StringsBuilder [''`'', col, ''`'']) tmpCols)
                (map (\<lambda>g. Join g '','') groups) None \<and>
     concat groups = tuples \<and>
     (1 \<le> n \<longrightarrow> (\<forall>g \<in> set (butlast groups). int (length g) = n) \<and>
                (groups \<noteq> [] \<longrightarrow> 1 \<le> length (last groups) \<and> int (length (last groups)) \<le> n)) \<and>
     (tuples = [] \<longrightarrow> groups = []) \<and>
     (n \<le> 0 \<and> tuples \<noteq> [] \<longrightarrow> groups = [tuples])"
proof -
  let ?gs = "fst (split_batches n tuples [])"
  let ?tmp = "snd (split_batches n tuples [])"
  let ?groups = "if length ?tmp > 0 then ?gs @ [?tmp] else ?gs"
  have loop: "scan_rows env (map ScanType colTypes) (length tmpCols) n (Scans rows) [] [] =
              LoopDone ?tmp (map (\<lambda>g. Join g '','') ?gs)"
    using scan_rows_split [OF ok, of n "[]" "[]"] by simp
  have r: "GetOracleTableRowsData env (Inr rows) n =
       RowsData (map (\<lambda>col. StringsBuilder [''`'', col, ''`'']) tmpCols)
                (map (\<lambda>g. Join g '','') ?groups) None"
    using loop c ct re by (simp add: GetOracleTableRowsData_def)
  have cc: "concat ?groups = tuples"
    using split_batches_concat [of n tuples "[]"] by auto
  have sz: "(\<forall>g \<in> set (butlast ?groups). int (length g) = n) \<and>
            (?groups \<noteq> [] \<longrightarrow> 1 \<le> length (last ?groups) \<and> int (length (last ?groups)) \<le> n)"
    if n1: "1 \<le> n"
  proof -
    from n1 have "int (length ([]::string list)) < n" by simp
    from split_batches_sizes [OF n1 this, of tuples]
    have g: "\<forall>g \<in> set ?gs. int (length g) = n" and t: "int (length ?tmp) < n" by auto
    show ?thesis
    proof (cases "length ?tmp > 0")
      case True
      then have "Suc 0 \<le> length ?tmp" by (cases ?tmp) simp_all
      with True g t show ?thesis by (simp add: butlast_append)
    next
      case False
      have "g \<in> set ?gs" if "g \<in> set (butlast ?gs)" for g using that by (rule in_set_butlastD)
      then have b: "\<forall>g \<in> set (butlast ?gs). int (length g) = n" using g by blast
      have l: "int (length (last ?gs)) = n" if "?gs \<noteq> []"
        using g last_in_set [OF that] by blast
      have "1 \<le> length (last ?gs) \<and> int (length (last ?gs)) \<le> n" if "?gs \<noteq> []"
        using l [OF that] n1 by linarith
      with b False show ?thesis by simp
    qed
  qed
  have e: "?groups = []" if "tuples = []" using that by simp
  have np: "?groups = [tuples]" if "n \<le> 0 \<and> tuples \<noteq> []"
    using that split_batches_nonpos [of n tuples "[]"] by simp
  from r cc sz e np show ?thesis by blast
qed

theorem rows_batched_witness:
  "\<exists>groups.
     GetOracleTableRowsData env0 (Inr rows3) 2 =
       RowsData [''`ID`'', ''`NAME`''] (map (\<lambda>g. Join g '','') groups) None \<and>
     concat groups = [''(1,'' @ [CHR 0x27] @ ''a'' @ [CHR 0x27] @ '')'', ''(2,NULL)'', ''(3,NULL)''] \<and>
     (\<forall>g \<in> set (butlast groups). int (length g) = 2) \<and>
     (groups \<noteq> [] \<longrightarrow> 1 \<le> length (last groups) \<and> int (length (last groups)) \<le> 2)"
proof -
  have h: "map (row_tuple env0 (map ScanType [\<lparr>ScanType = ''int64'', DatabaseTypeName = ''NUMBER''\<rparr>,
                               \<lparr>ScanType = ''string'', DatabaseTypeName = ''VARCHAR2''\<rparr>]) (length [''ID'', ''NAME''])) (Scans rows3)
      = map Some [''(1,'' @ [CHR 0x27] @ ''a'' @ [CHR 0x27] @ '')'', ''(2,NULL)'', ''(3,NULL)'']"
    by (simp add: rows3_def row_tuple_def Scan_def encode_value_def int_lit_def
        StrconvIntBitSize_def ParseInt_def is_digit_def digits_val_def digit_val_def fmt_int_def
        digits_of.simps StringsBuilder_def SpecialLettersUsingMySQL_def escape_char_def)
  from rows_batched [OF h, of 2] show ?thesis
    by (simp add: rows3_def StringsBuilder_def)
qed

subsection \<open>Value codec\<close>

lemma digit_nth: "k < 10 \<Longrightarrow> is_digit (''0123456789'' ! k)"
proof -
  assume "k < 10"
  then have "k \<in> {0,1,2,3,4,5,6,7,8,9}" by auto
  then show ?thesis by (auto simp: is_digit_def)
qed

lemma digits_of_digits: "digits_of n \<noteq> [] \<and> list_all is_digit (digits_of n)"
proof (induction n rule: digits_of.induct)
  case (1 n)
  show ?case
  proof (cases "n < 10")
    case True
    then show ?thesis by (subst (1 2) digits_of.simps) (simp add: digit_nth)
  next
    case False
    have "n mod 10 < 10" by simp
    then have "is_digit (''0123456789'' ! (n mod 10))" by (rule digit_nth)
    with False 1 show ?thesis by (subst (1 2) digits_of.simps) simp
  qed
qed

lemma digits_of_not_NULL: "digits_of n \<noteq> ''NULL''"
proof
  assume "digits_of n = ''NULL''"
  with digits_of_digits [of n] have "list_all is_digit ''NULL''" by simp
  then show False by (simp add: is_digit_def)
qed

lemma fmt_int_not_NULL: "fmt_int i \<noteq> ''NULL''"
  using digits_of_not_NULL by (simp add: fmt_int_def)

lemma int_lit_not_NULL: "int_lit s b \<noteq> Lit ''NULL''"
  using fmt_int_not_NULL by (simp add: int_lit_def split: sum.splits)

lemma escape_nonempty: "s \<noteq> [] \<Longrightarrow> SpecialLettersUsingMySQL s \<noteq> []"
  by (cases s) (simp_all add: SpecialLettersUsingMySQL_def escape_char_def)

text \<open>
  C7. The codec emits the literal \<open>NULL\<close> exactly when the raw bytes are nil or the empty
  string (the float printer, which is outside the repository, is assumed never to print
  \<open>NULL\<close>); a non-empty value of a column that is not numeric is emitted between single
  quotes, escaped, and what stands between the quotes is not empty.
\<close>

theorem codec_null_iff:
  assumes fl: "\<forall>s b r. FloatFormat env s b = Inr r \<longrightarrow> r \<noteq> ''NULL''"
  shows "(encode_value env columnTypes i raw = Lit ''NULL'' \<longleftrightarrow> raw = None \<or> raw = Some []) \<and>
         (\<forall>s. raw = Some s \<and> s \<noteq> [] \<and> i < length columnTypes \<and>
               columnTypes ! i \<notin> set [''int64'', ''uint64'', ''float32'', ''float64'', ''rune'',
                                       ''godror.Number''] \<longrightarrow>
               encode_value env columnTypes i raw =
                 Lit ([CHR 0x27] @ SpecialLettersUsingMySQL s @ [CHR 0x27]) \<and>
               SpecialLettersUsingMySQL s \<noteq> [])"
proof (intro conjI allI impI)
  show "encode_value env columnTypes i raw = Lit ''NULL'' \<longleftrightarrow> raw = None \<or> raw = Some []"
  proof (cases raw)
    case None
    then show ?thesis by (simp add: encode_value_def)
  next
    case (Some s)
    show ?thesis
    proof (cases "s = []")
      case True
      with Some show ?thesis by (simp add: encode_value_def)
    next
      case False
      have "encode_value env columnTypes i (Some s) \<noteq> Lit ''NULL''"
        using False fl int_lit_not_NULL digits_of_not_NULL fmt_int_not_NULL
        by (auto simp: encode_value_def split: result.splits sum.splits)
      with Some False show ?thesis by simp
    qed
  qed
next
  fix s
  assume a: "raw = Some s \<and> s \<noteq> [] \<and> i < length columnTypes \<and>
     columnTypes ! i \<notin> set [''int64'', ''uint64'', ''float32'', ''float64'', ''rune'',
                             ''godror.Number'']"
  then show "encode_value env columnTypes i raw =
     Lit ([CHR 0x27] @ SpecialLettersUsingMySQL s @ [CHR 0x27])"
    by (simp add: encode_value_def)
  from a show "SpecialLettersUsingMySQL s \<noteq> []" by (simp add: escape_nonempty)
qed

lemma env0_float: "\<forall>s b r. FloatFormat env0 s b = Inr r \<longrightarrow> r \<noteq> ''NULL''"
  by (auto simp: env0_def is_digit_def split: if_splits)

theorem codec_null_iff_witness:
  "(encode_value env0 [''string''] 0 (Some []) = Lit ''NULL'') \<and>
   (encode_value env0 [''string''] 0 None = Lit ''NULL'') \<and>
   (encode_value env0 [''string''] 0 (Some [CHR ''a'', CHR 0x0A, CHR ''b'']) =
       Lit [CHR 0x27, CHR ''a'', CHR 0x5C, CHR ''n'', CHR ''b'', CHR 0x27])"
proof -
  have m: "[''string''] ! 0 \<notin> set [''int64'', ''uint64'', ''float32'', ''float64'', ''rune'',
                                       ''godror.Number'']" by simp
  from codec_null_iff [OF env0_float, of "[''string'']" 0 "Some []"]
       codec_null_iff [OF env0_float, of "[''string'']" 0 None]
       codec_null_iff [OF env0_float, of "[''string'']" 0 "Some [CHR ''a'', CHR 0x0A, CHR ''b'']"] m
  show ?thesis by (simp add: SpecialLettersUsingMySQL_def escape_char_def)
qed

subsection \<open>Timestamp projection\<close>

text \<open>
  C5. The claim wants \<open>.ff3\<close> for the column \<open>ts TIMESTAMP(3)\<close>. The code's test for the
  scales 1 to 6 is \<open>dataScale < 0 && dataScale <= 6\<close>, which no scale from 1 to 6 passes:
  the projection of \<open>ts\<close> is cut to \<open>.ff6\<close>.
\<close>

theorem timestamp3_projection:
  "adjustTableSelectColumn (Inr [ts3]) = Inr ''TO_CHAR(ts,'yyyy-mm-dd hh24:mi:ss.ff6') AS ts''"
  by (simp add: adjustTableSelectColumn_def select_column_def ts3_def go_index_def ToUpper_def
      to_upper_def Atoi_def ParseInt_def is_digit_def digits_val_def digit_val_def
      StringsBuilder_def Let_def)

subsection \<open>Unfolding the engine on concrete worlds\<close>

lemmas store_defs =
  meta_call_def tick_def matches_def mk_row_def set_fields_def zero_row_def key_of_def
  patch_of_def wait_key_def full_key_def same_key_def insert_full_def duplicate_key_def
  DetailWaitSyncMetaSuccessTables_def DeleteWaitSyncMetaSuccessTables_def
  CountsErrWaitSyncMetaBySchema_def DetailWaitSyncMeta_def QueryWaitSyncMetaByPartTask_def
  CreateWaitSyncMeta_def DeleteWaitSyncMeta_def UpdateWaitSyncMeta_def
  DeleteFullSyncMetaBySchemaSyncMode_def DistinctFullSyncMetaTableNameSByTaskStatus_def
  CountsFullSyncMetaByTaskTable_def CountsErrorFullSyncMeta_def DetailFullSyncMeta_def
  UpdateFullSyncMeta_def BatchCreateFullSyncMeta_def
  CreateFullSyncMetaAndUpdateWaitSyncMeta_def DeleteTableFullSyncMetaAndUpdateWaitSyncMeta_def
  TruncateMySQLTable_def

lemmas common_defs =
  StringUPPER_def ToUpper_def to_upper_def IsContainString_def
  FilterDifferenceStringItems_def FilterIntersectionStringItems_def of_sum_def andThen_def
  TaskStatusWaiting_def TaskStatusRunning_def TaskStatusSuccess_def TaskStatusFailed_def
  StringsBuilder_def go_index_def Let_def

lemmas engine_defs =
  chunk_key_def record_failed_def chunk_task_def part_table_task_def fullPartSyncTable_def
  getTableNameRule_def chunk_fields_def single_chunk_def init_table_task_def
  initWaitSyncTableRowID_def fullWaitSyncTable_def success_cond_def failed_cond_def
  clear_success_def failed_check_def register_exporter_def wipe_exporter_def checkpoint_wipe_def
  wait_cond_def run_tables_def Full_def

lemmas reader_defs =
  GetOracleCurrentSnapshotSCN_def CloseOracleChunkTask_def StartOracleChunkCreateTask_def
  StartOracleCreateChunkByRowID_def GetOracleTableChunksByRowID_def
  StrconvUintBitSize_def ParseUint_def is_digit_def digits_val_def digit_val_def
  fmt_int_def digits_of.simps adjustTableSelectColumn_def select_column_def
  pe_ops_def task_chunks_def chunk_cmd_def rowid_between_def

lemmas example_defs =
  cfg1_def env1_def env_meta_down_def env_extract_fails_def chunk_of_def table_of_def
  w_resumed_def w_crashed_def w_empty_def w_fresh_def w_failed_def cfg_off_def db0_def db2_def

subsection \<open>Chunk failures\<close>








subsection \<open>Table completion\<close>

text \<open>
  C1. On the resumed table \<open>T1\<close> (three chunks, one already SUCCESS, two waiting, every
  stage succeeding) the table ends SUCCESS with its chunk rows deleted, and with
  \<open>chunk_success = 2\<close> beside \<open>chunk_total = 3\<close>: the count written is that of the
  chunks loaded as WAITING for this run. On the same table interrupted with two chunks
  FAILED and one waiting, the table ends FAILED with \<open>chunk_failed = 2\<close> and
  \<open>chunk_success = - 1\<close>: the failures of the whole table are taken from the chunks of
  this run.
\<close>

theorem resumed_table_success_count:
  "fst (part_table_task env1 cfg1 ''T1'' w_resumed) = Ok () \<and>
   map (\<lambda>r. (r TaskStatus, r ChunkTotalNums, r ChunkSuccessNums, r ChunkFailedNums))
       (wait_sync_meta (snd (part_table_task env1 cfg1 ''T1'' w_resumed)))
     = [(S ''SUCCESS'', N 3, N 2, N 0)] \<and>
   full_sync_meta (snd (part_table_task env1 cfg1 ''T1'' w_resumed)) = [] \<and>
   fst (part_table_task env1 cfg1 ''T1'' w_crashed) = Ok () \<and>
   map (\<lambda>r. (r TaskStatus, r ChunkTotalNums, r ChunkSuccessNums, r ChunkFailedNums))
       (wait_sync_meta (snd (part_table_task env1 cfg1 ''T1'' w_crashed)))
     = [(S ''FAILED'', N 3, N (- 1), N 2)] \<and>
   length (full_sync_meta (snd (part_table_task env1 cfg1 ''T1'' w_crashed))) = 3"
  by (simp add: store_defs common_defs engine_defs example_defs rowid_between_def)

subsection \<open>The chunking task\<close>

text \<open>
  C8. Table \<open>T1\<close> has statistics of five rows, but \<open>CREATE_CHUNKS_BY_ROWID\<close> produces no
  chunk. The worker returns nil and leaves the task \<open>S_T1_TASK0\<close> in Oracle; since the
  task has no chunk, the next \<open>StartOracleChunkCreateTask\<close> under that name does not
  drop it and fails at \<open>CREATE_TASK\<close>. With two chunks to find, the same worker drops
  the task.
\<close>

theorem empty_chunk_list_leaves_task:
  "fst (init_table_task env1 cfg1 Map.empty 42 [] True (0, ''T1'') w_fresh) = Ok () \<and>
   pe_tasks (oracle_db (snd (init_table_task env1 cfg1 Map.empty 42 [] True (0, ''T1'') w_fresh)))
     = [(''S_T1_TASK0'', [])] \<and>
   fst (StartOracleChunkCreateTask pe_ops
          (oracle_db (snd (init_table_task env1 cfg1 Map.empty 42 [] True (0, ''T1'') w_fresh)))
          ''S_T1_TASK0'')
     = Err (Wrap ''oracle DBMS_PARALLEL_EXECUTE create task failed''
                 (Driver ''ORA-29497: duplicate task name'')) \<and>
   pe_tasks (oracle_db (snd (init_table_task env1 cfg1 Map.empty 42 [] True (0, ''T1'')
                               (w_fresh\<lparr>oracle_db := db2\<rparr>)))) = []"
  by (simp add: store_defs common_defs engine_defs example_defs reader_defs)

subsection \<open>Checkpoint off\<close>

text \<open>
  C4. With \<open>enable_checkpoint = false\<close>, one exporter \<open>T1\<close> and an empty store, the run
  truncates \<open>D.T1\<close> and re-inserts the row of \<open>T1\<close> with no status at all (the literal
  of the re-insert names no \<open>TaskStatus\<close>, where the first insert names WAITING), so
  the query for WAITING tables finds nothing and no chunk is run. With the checkpoint on,
  the same table is registered WAITING, chunked and brought to SUCCESS.
\<close>

theorem checkpoint_off_status_empty:
  "fst (Full env1 cfg_off w_empty) = Ok () \<and>
   map (\<lambda>r. (r TableNameS, r TaskStatus)) (wait_sync_meta (snd (Full env1 cfg_off w_empty)))
     = [(S ''T1'', S [])] \<and>
   truncated (snd (Full env1 cfg_off w_empty)) = [(''D'', ''T1'')] \<and>
   full_sync_meta (snd (Full env1 cfg_off w_empty)) = [] \<and>
   chunks_run (snd (Full env1 cfg_off w_empty)) = [] \<and>
   map (\<lambda>r. (r TableNameS, r TaskStatus)) (wait_sync_meta (snd (Full env1 cfg1 w_empty)))
     = [(S ''T1'', S ''SUCCESS'')] \<and>
   length (chunks_run (snd (Full env1 cfg1 w_empty))) = 1"
  by (simp add: store_defs common_defs engine_defs example_defs reader_defs)

subsection \<open>Failed tables block the run\<close>

lemma failed_not_success: "matches (failed_cond cfg) r \<Longrightarrow> \<not> matches (success_cond cfg) r"
  by (auto simp: matches_def failed_cond_def success_cond_def TaskStatusFailed_def
      TaskStatusSuccess_def)

lemma clear_success_effect:
  "\<exists>res tables n. clear_success env cfg exporters w =
       (res, w\<lparr>wait_sync_meta := filter (kept cfg tables) (wait_sync_meta w),
               meta_calls := n\<rparr>) \<and>
     res \<noteq> Panic \<and> set tables \<inter> set exporters = {}"
proof (cases "meta_fault env (meta_calls w)")
  case (Some e)
  then have "clear_success env cfg exporters w =
       (Err e, w\<lparr>wait_sync_meta := filter (kept cfg []) (wait_sync_meta w),
                 meta_calls := Suc (meta_calls w)\<rparr>)"
    by (simp add: clear_success_def DetailWaitSyncMetaSuccessTables_def meta_call_def tick_def
        andThen_def kept_def)
  then show ?thesis
    by (intro exI [of _ "Err e"] exI [of _ "[]"] exI [of _ "Suc (meta_calls w)"]) simp
next
  case None
  let ?tbm = "map (\<lambda>r. str_of (r TableNameS)) (filter (matches (success_cond cfg)) (wait_sync_meta w))"
  let ?clear = "FilterDifferenceStringItems ?tbm exporters"
  have disj: "set ?clear \<inter> set exporters = {}"
    by (auto simp: FilterDifferenceStringItems_def)
  show ?thesis
  proof (cases "length ?clear > 0")
    case False
    with None have "clear_success env cfg exporters w =
       (Ok (), w\<lparr>wait_sync_meta := filter (kept cfg []) (wait_sync_meta w),
                 meta_calls := Suc (meta_calls w)\<rparr>)"
      by (simp add: clear_success_def DetailWaitSyncMetaSuccessTables_def meta_call_def tick_def
          andThen_def kept_def Let_def)
    then show ?thesis
      by (intro exI [of _ "Ok ()"] exI [of _ "[]"] exI [of _ "Suc (meta_calls w)"]) simp
  next
    case True
    show ?thesis
    proof (cases "meta_fault env (Suc (meta_calls w))")
      case (Some e)
      with None True have "clear_success env cfg exporters w =
         (Err e, w\<lparr>wait_sync_meta := filter (kept cfg []) (wait_sync_meta w),
                   meta_calls := Suc (Suc (meta_calls w))\<rparr>)"
        by (simp add: clear_success_def DetailWaitSyncMetaSuccessTables_def
            DeleteWaitSyncMetaSuccessTables_def meta_call_def tick_def
            andThen_def kept_def Let_def)
      then show ?thesis
        by (intro exI [of _ "Err e"] exI [of _ "[]"] exI [of _ "Suc (Suc (meta_calls w))"]) simp
    next
      case n2: None
      with None True have "clear_success env cfg exporters w =
         (Ok (), w\<lparr>wait_sync_meta := filter (kept cfg ?clear) (wait_sync_meta w),
                   meta_calls := Suc (Suc (meta_calls w))\<rparr>)"
        by (simp add: clear_success_def DetailWaitSyncMetaSuccessTables_def
            DeleteWaitSyncMetaSuccessTables_def meta_call_def tick_def
            andThen_def kept_def [abs_def] Let_def)
      with disj show ?thesis
        by (intro exI [of _ "Ok ()"] exI [of _ "?clear"] exI [of _ "Suc (Suc (meta_calls w))"]) simp
    qed
  qed
qed

lemma failed_check_blocks:
  assumes "\<exists>r \<in> set (wait_sync_meta w). matches (failed_cond cfg) r"
  shows "failed_check env cfg w =
     (Err (case meta_fault env (meta_calls w) of
             None \<Rightarrow> Msg remediation_message | Some e \<Rightarrow> Wrap remediation_message e),
      w\<lparr>meta_calls := Suc (meta_calls w)\<rparr>)"
proof -
  from assms have "filter (matches (failed_cond cfg)) (wait_sync_meta w) \<noteq> []"
    by (simp add: filter_empty_conv)
  then have "length (filter (matches (failed_cond cfg)) (wait_sync_meta w)) > 0" by simp
  then show ?thesis
    by (simp add: failed_check_def CountsErrWaitSyncMetaBySchema_def meta_call_def tick_def
        split: option.splits)
qed

text \<open>
  C3, as amended. If some WaitSync row of the schema and task mode is FAILED when
  \<open>Full\<close> starts, the run returns an error; what it wrote before is at most the deletion
  of the SUCCESS rows of tables that are not exporters (\<open>tables\<close> below), which comes
  before the count of FAILED rows. No WaitSync row is created or updated, no FullSync row changes, no
  destination table is truncated, no chunk is run, Oracle is not written. When the
  version check and the table filter pass and the store answers, the error is the
  remediation message.
\<close>

theorem failed_tables_block_run:
  assumes failed: "\<exists>r \<in> set (wait_sync_meta w). matches (failed_cond cfg) r"
  shows "\<exists>e tables.
     fst (Full env cfg w) = Err e \<and>
     wait_sync_meta (snd (Full env cfg w)) =
       filter (\<lambda>r. \<not> (matches (success_cond cfg) r \<and> str_of (r TableNameS) \<in> set tables))
              (wait_sync_meta w) \<and>
     (\<forall>exporters. filterCFGTable env = Inr exporters \<longrightarrow> set tables \<inter> set exporters = {}) \<and>
     full_sync_meta (snd (Full env cfg w)) = full_sync_meta w \<and>
     truncated (snd (Full env cfg w)) = truncated w \<and>
     chunks_run (snd (Full env cfg w)) = chunks_run w \<and>
     oracle_db (snd (Full env cfg w)) = oracle_db w \<and>
     (\<forall>v exporters.
        GetOracleDBVersion env = Inr v \<and>
        \<not> VersionOrdinal env v < VersionOrdinal env (RequireOracleDBVersion env) \<and>
        filterCFGTable env = Inr exporters \<and> (\<forall>n. meta_fault env n = None) \<longrightarrow>
        e = Msg remediation_message)"
proof (cases "GetOracleDBVersion env")
  case (Inl e)
  then have "Full env cfg w = (Err e, w)" by (simp add: Full_def)
  then show ?thesis using Inl
    by (intro exI [of _ e] exI [of _ "[]"]) simp
next
  case (Inr v)
  show ?thesis
  proof (cases "VersionOrdinal env v < VersionOrdinal env (RequireOracleDBVersion env)")
    case True
    with Inr have "Full env cfg w =
       (Err (Msg ''oracle db version is less than 11g, can't be using transferdb tools''), w)"
      by (simp add: Full_def)
    then show ?thesis using Inr True
      by (intro exI [of _ "Msg ''oracle db version is less than 11g, can't be using transferdb tools''"]
                exI [of _ "[]"]) simp
  next
    case False
    show ?thesis
    proof (cases "filterCFGTable env")
      case (Inl e)
      with Inr False have "Full env cfg w = (Err e, w)" by (simp add: Full_def)
      then show ?thesis using Inl
        by (intro exI [of _ e] exI [of _ "[]"]) simp
    next
      case ex: (Inr exporters)
      from clear_success_effect [of env cfg exporters w]
      obtain res tables n where
        cs: "clear_success env cfg exporters w =
               (res, w\<lparr>wait_sync_meta := filter (kept cfg tables) (wait_sync_meta w),
                       meta_calls := n\<rparr>)"
        and np: "res \<noteq> Panic" and disj: "set tables \<inter> set exporters = {}"
        by blast
      let ?w1 = "w\<lparr>wait_sync_meta := filter (kept cfg tables) (wait_sync_meta w),
                     meta_calls := n\<rparr>"
      from failed obtain r where r: "r \<in> set (wait_sync_meta w)"
        and rf: "matches (failed_cond cfg) r" by blast
      from rf have "kept cfg tables r" by (simp add: kept_def failed_not_success)
      with r rf have f1: "\<exists>r \<in> set (wait_sync_meta ?w1). matches (failed_cond cfg) r"
        by auto
      have k: "filter (kept cfg tables) (wait_sync_meta w) =
               filter (\<lambda>r. \<not> (matches (success_cond cfg) r \<and> str_of (r TableNameS) \<in> set tables))
                      (wait_sync_meta w)"
        by (simp add: kept_def [abs_def])
      show ?thesis
      proof (cases res)
        case Panic
        with np show ?thesis by simp
      next
        case (Err e)
        with cs Inr False ex have F: "Full env cfg w = (Err e, ?w1)"
          by (simp add: Full_def andThen_def)
        have nf: "\<not> (\<forall>n. meta_fault env n = None)"
        proof
          assume a: "\<forall>n. meta_fault env n = None"
          then have "fst (clear_success env cfg exporters w) = Ok ()"
            by (simp add: clear_success_def DetailWaitSyncMetaSuccessTables_def
                DeleteWaitSyncMetaSuccessTables_def meta_call_def tick_def andThen_def Let_def)
          with cs Err show False by simp
        qed
        show ?thesis
          using F k disj ex nf
          by (intro exI [of _ e] exI [of _ tables]) auto
      next
        case (Ok u)
        with cs Inr False ex failed_check_blocks [OF f1, of env]
        have F: "Full env cfg w =
           (Err (case meta_fault env n of
                   None \<Rightarrow> Msg remediation_message | Some e \<Rightarrow> Wrap remediation_message e),
            ?w1\<lparr>meta_calls := Suc n\<rparr>)"
          by (simp add: Full_def andThen_def)
        show ?thesis
          using F k disj ex
          by (intro exI [of _ "case meta_fault env n of
                   None \<Rightarrow> Msg remediation_message | Some e \<Rightarrow> Wrap remediation_message e"]
                    exI [of _ tables]) (simp split: option.splits)
      qed
    qed
  qed
qed

theorem failed_tables_block_run_witness:
  "(\<exists>r \<in> set (wait_sync_meta w_failed). matches (failed_cond cfg1) r) \<and>
   (\<exists>e tables.
     fst (Full env1 cfg1 w_failed) = Err e \<and>
     wait_sync_meta (snd (Full env1 cfg1 w_failed)) =
       filter (\<lambda>r. \<not> (matches (success_cond cfg1) r \<and> str_of (r TableNameS) \<in> set tables))
              (wait_sync_meta w_failed) \<and>
     full_sync_meta (snd (Full env1 cfg1 w_failed)) = full_sync_meta w_failed \<and>
     truncated (snd (Full env1 cfg1 w_failed)) = truncated w_failed \<and>
     chunks_run (snd (Full env1 cfg1 w_failed)) = chunks_run w_failed)"
proof -
  have h: "\<exists>r \<in> set (wait_sync_meta w_failed). matches (failed_cond cfg1) r"
    by (simp add: store_defs common_defs engine_defs example_defs)
  from failed_tables_block_run [OF h, of env1] h show ?thesis by blast
qed

text \<open>
  The claim C3 as stated fails: with table \<open>A\<close> SUCCESS and no longer configured and
  table \<open>B\<close> FAILED, the run stops at the count of FAILED rows with two rows before it and one after.
\<close>

theorem clear_before_block_counterexample:
  "fst (Full env1 cfg1 w_failed) = Err (Msg remediation_message) \<and>
   length (wait_sync_meta w_failed) = 2 \<and>
   (wait_sync_meta w_failed ! 1) TaskStatus = S ''FAILED'' \<and>
   length (wait_sync_meta (snd (Full env1 cfg1 w_failed))) = 1"
  by (simp add: store_defs common_defs engine_defs example_defs reader_defs)

subsection \<open>Snapshot uniformity\<close>












end
